theory Spec2Isabelle
  imports Main "HOL-Library.Sublist"
begin

section \<open>Paths: Go's path/filepath on Unix\<close>

text \<open>
  The builder computes every path with \<^verbatim>\<open>filepath.Join\<close>, \<^verbatim>\<open>filepath.Dir\<close> and
  \<^verbatim>\<open>filepath.Base\<close>. A Go string is a sequence of bytes, here a \<^typ>\<open>string\<close>.
  \<^verbatim>\<open>filepath.Clean\<close> works on the elements between separators: empty elements and
  \<^verbatim>\<open>.\<close> are dropped, \<^verbatim>\<open>..\<close> removes the element before it when there is one,
  is dropped at the root, and is kept at the start of a relative path.
\<close>

definition Separator :: char where
  "Separator = CHR ''/''"

fun split_sep :: "string \<Rightarrow> string list" where
  "split_sep [] = [[]]"
| "split_sep (c # cs) =
     (if c = Separator then [] # split_sep cs
      else (case split_sep cs of [] \<Rightarrow> [[c]] | e # es \<Rightarrow> (c # e) # es))"

fun join_sep :: "string list \<Rightarrow> string" where
  "join_sep [] = []"
| "join_sep [e] = e"
| "join_sep (e # e' # es) = e @ [Separator] @ join_sep (e' # es)"

fun clean_elems :: "bool \<Rightarrow> string list \<Rightarrow> string list \<Rightarrow> string list" where
  "clean_elems rooted out [] = out"
| "clean_elems rooted out (e # es) =
     (if e = [] \<or> e = ''.'' then clean_elems rooted out es
      else if e = ''..'' then
        (if out \<noteq> [] \<and> last out \<noteq> ''..'' then clean_elems rooted (butlast out) es
         else if \<not> rooted then clean_elems rooted (out @ [''..'']) es
         else clean_elems rooted out es)
      else clean_elems rooted (out @ [e]) es)"

definition Clean :: "string \<Rightarrow> string" where
  "Clean path =
     (if path = [] then ''.''
      else
        let rooted = (hd path = Separator);
            out = clean_elems rooted [] (split_sep path);
            s = (if rooted then [Separator] else []) @ join_sep out
        in if s = [] then ''.'' else s)"

text \<open>
  \<^verbatim>\<open>filepath.Join\<close>: the elements from the first non-empty one on are joined with the
  separator and cleaned; with no non-empty element the result is the empty string.
\<close>

definition Join :: "string list \<Rightarrow> string" where
  "Join elem =
     (case dropWhile (\<lambda>e. e = []) elem of
        [] \<Rightarrow> []
      | e # es \<Rightarrow> Clean (join_sep (e # es)))"

text \<open>
  \<^verbatim>\<open>filepath.Dir\<close> cleans the path up to and including its last separator;
  \<^verbatim>\<open>filepath.Base\<close> strips trailing separators and returns the last element.
\<close>

definition Dir :: "string \<Rightarrow> string" where
  "Dir path = Clean (rev (dropWhile (\<lambda>c. c \<noteq> Separator) (rev path)))"

definition Base :: "string \<Rightarrow> string" where
  "Base path =
     (if path = [] then ''.''
      else
        let stripped = rev (dropWhile (\<lambda>c. c = Separator) (rev path));
            lastel = rev (takeWhile (\<lambda>c. c \<noteq> Separator) (rev stripped))
        in if lastel = [] then [Separator] else lastel)"

section \<open>Profiles and backing images (builder package)\<close>

definition ImagesDir :: string where
  "ImagesDir = ''/var/lib/solbuild/images''"

definition ImageSuffix :: string where
  "ImageSuffix = ''.img''"

definition ImageCompressedSuffix :: string where
  "ImageCompressedSuffix = ''.img.xz''"

definition ImageBaseURI :: string where
  "ImageBaseURI = ''https://solus-project.com/image_root''"

definition DefaultProfile :: string where
  "DefaultProfile = ''main-x86_64''"

definition ImageRootsDir :: string where
  "ImageRootsDir = ''/var/lib/solbuild/roots''"

definition PackageCacheDirectory :: string where
  "PackageCacheDirectory = ''/var/lib/solbuild/packages''"

definition ValidProfiles :: "string list" where
  "ValidProfiles = [''main-x86_64'', ''unstable-x86_64'']"

text \<open>The loop of \<^verbatim>\<open>IsValidProfile\<close> over a list of profiles, first match wins.\<close>

fun profile_in :: "string list \<Rightarrow> string \<Rightarrow> bool" where
  "profile_in [] profile = False"
| "profile_in (p # ps) profile = (if p = profile then True else profile_in ps profile)"

definition IsValidProfile :: "string \<Rightarrow> bool" where
  "IsValidProfile profile = profile_in ValidProfiles profile"

record BackingImage =
  Name :: string
  ImagePath :: string
  ImagePathXZ :: string
  ImageURI :: string
  RootDir :: string

definition NewBackingImage :: "string \<Rightarrow> BackingImage" where
  "NewBackingImage name =
     \<lparr> Name = name,
       ImagePath = Join [ImagesDir, name @ ImageSuffix],
       ImagePathXZ = Join [ImagesDir, name @ ImageCompressedSuffix],
       ImageURI = ImageBaseURI @ ''/'' @ name @ ImageCompressedSuffix,
       RootDir = Join [ImageRootsDir, name] \<rparr>"

section \<open>Packages, sources and the outside world\<close>

text \<open>
  Modelled from the spec: the declaration of \<^verbatim>\<open>PackageType\<close> and of its constants is
  missing from the files modelled here; the spec gives two mutually exclusive formats,
  the legacy XML descriptor and the modern ypkg descriptor. The functions below compare
  \<^verbatim>\<open>p.Type\<close> with one constant and take the other branch otherwise, as the code does.
\<close>

datatype PackageType = PackageTypeXML | PackageTypeYpkg

text \<open>The fields of \<^verbatim>\<open>Source\<close>, \<^verbatim>\<open>Package\<close> and \<^verbatim>\<open>Overlay\<close> that the builder reads.\<close>

record Source =
  URI :: string
  File :: string
  SHA1Sum :: string
  SHA256Sum :: string

record Package =
  Name :: string
  Version :: string
  Release :: int
  Type :: PackageType
  Path :: string
  Sources :: "Source list"

record Overlay =
  MountPoint :: string

text \<open>
  The package manager proxy is the value \<^verbatim>\<open>NewEopkgManager(root)\<close>; the reaper is the
  closure \<^verbatim>\<open>GrimReaper(overlay, p, pman)\<close>, bound to that triple.
\<close>

datatype EopkgManager = NewEopkgManager string

datatype Reaper = GrimReaper Overlay Package EopkgManager

text \<open>
  A Go \<^verbatim>\<open>error\<close> is either made here with \<^verbatim>\<open>errors.New\<close> or handed back by a
  collaborator.
\<close>

datatype error = ErrorsNew string | ExternalError string

text \<open>
  Every call into a collaborator is an action (it returns an error or \<^verbatim>\<open>nil\<close>, and may
  change the system) or a query (it only answers). \<^verbatim>\<open>PathExists\<close> is the builder's
  wrapper around \<^verbatim>\<open>os.Stat\<close>; \<^verbatim>\<open>MkdirAll\<close> carries its mode, \<^verbatim>\<open>0755\<close>, as a number.
\<close>

datatype action =
    CleanExisting Overlay
  | ActivateRoot Package Overlay
  | ConfigureNetworking Overlay
  | DropNetworking
  | CopyAll string string
  | Fetch Source
  | MkdirAll string nat
  | TouchFile string
  | BindMount string string
  | PmanInit EopkgManager
  | StartDBUS EopkgManager
  | StopDBUS EopkgManager
  | Upgrade EopkgManager
  | InstallComponent EopkgManager string
  | ChrootExec string string
  | Update BackingImage

datatype query =
    IsFetched Source string
  | PathExists string

datatype level = Debug | Info | Warning | Error

datatype fieldval = FString string | FInt int | FType PackageType | FError error

text \<open>
  What a run does, in order: log entries, lines on standard error, actions with their
  result, queries with their answer, the registration of the deferred reaper and of the
  interrupt hook, and the deferred call itself when the function returns. The last three
  events belong to an interruption: the signal arrives, the hook invokes its reaper, the
  process terminates.
\<close>

datatype event =
    Log level string "(string \<times> fieldval) list"
  | Stderr string
  | Call action "error option"
  | Test query bool
  | Defer Reaper
  | HandleInterrupt Reaper
  | RunDeferred Reaper
  | Abs string "error + string"
  | FindLikelyArg string
  | NewPackage string "error + Package"
  | Geteuid int
  | Interrupted
  | RunHook Reaper
  | Terminated

text \<open>
  The collaborators are parameters: each answer may depend on everything that happened
  before, so any behaviour of the system is one such record. \<^verbatim>\<open>NewOverlay\<close> and
  \<^verbatim>\<open>source.GetPath\<close> compute values; \<^verbatim>\<open>TrimSpace\<close> is \<^verbatim>\<open>strings.TrimSpace\<close>; \<^verbatim>\<open>absPath\<close>
  is \<^verbatim>\<open>filepath.Abs\<close>, which reads the working directory; \<^verbatim>\<open>BuildUser\<close> and
  \<^verbatim>\<open>BuildUserHome\<close> are constants of the builder package whose declaration is not among
  the files modelled here.
\<close>

record Env =
  fails :: "event list \<Rightarrow> action \<Rightarrow> error option"
  holds :: "event list \<Rightarrow> query \<Rightarrow> bool"
  absPath :: "event list \<Rightarrow> string \<Rightarrow> error + string"
  findLikelyArg :: "event list \<Rightarrow> string"
  newPackage :: "event list \<Rightarrow> string \<Rightarrow> error + Package"
  geteuid :: "event list \<Rightarrow> int"
  NewOverlay :: "BackingImage \<Rightarrow> Package \<Rightarrow> Overlay"
  GetPath :: "Source \<Rightarrow> string \<Rightarrow> string"
  TrimSpace :: "string \<Rightarrow> string"
  BuildUser :: string
  BuildUserHome :: string

text \<open>
  A call of a collaborator asks the system for the result and records it.
  \<^verbatim>\<open>if err := f(); err != nil { log...; return err }\<close>: when the step has failed, the
  function returns the error after the given log entries, otherwise it goes on.
\<close>

definition call :: "Env \<Rightarrow> action \<Rightarrow> event list \<Rightarrow> error option \<times> event list" where
  "call env a h = (fails env h a, h @ [Call a (fails env h a)])"

definition check ::
  "error option \<times> event list \<Rightarrow> (error \<Rightarrow> event list)
     \<Rightarrow> (event list \<Rightarrow> error option \<times> event list) \<Rightarrow> error option \<times> event list" where
  "check r onfail k =
     (case r of
        (Some err, h) \<Rightarrow> (Some err, h @ onfail err)
      | (None, h) \<Rightarrow> k h)"

section \<open>Sources: fetching and binding\<close>

text \<open>
  The loop of \<^verbatim>\<open>FetchSources\<close> has no \<^verbatim>\<open>return\<close>: a source that is fetched already is
  skipped, a failed fetch is logged, and the function returns \<^verbatim>\<open>nil\<close> after the last
  source.
\<close>

fun FetchSources_loop :: "Env \<Rightarrow> Package \<Rightarrow> Source list \<Rightarrow> event list \<Rightarrow> event list" where
  "FetchSources_loop env p [] h = h"
| "FetchSources_loop env p (source # rest) h =
     (let expHash = (if Type p = PackageTypeXML then SHA1Sum source else SHA256Sum source)
      in
        if holds env h (IsFetched source expHash)
        then FetchSources_loop env p rest (h @ [Test (IsFetched source expHash) True])
        else
          let h = h @ [Test (IsFetched source expHash) False,
                       Log Info ''Downloading source'' [(''uri'', FString (URI source))]]
          in case fails env h (Fetch source) of
               Some err \<Rightarrow>
                 FetchSources_loop env p rest
                   (h @ [Call (Fetch source) (Some err),
                         Log Error ''Failed to fetch source''
                           [(''error'', FError err), (''uri'', FString (URI source))]])
             | None \<Rightarrow> FetchSources_loop env p rest (h @ [Call (Fetch source) None]))"

definition FetchSources ::
  "Env \<Rightarrow> Package \<Rightarrow> Overlay \<Rightarrow> event list \<Rightarrow> error option \<times> event list" where
  "FetchSources env p ov h = (None, FetchSources_loop env p (Sources p) h)"

text \<open>
  The external directories slice the first byte off the internal ones (\<^verbatim>\<open>[1:]\<close>, which
  would panic on an empty string; the internal directories are never empty, as is proved
  with the directory conventions below) and join the rest under the mount point.
\<close>

definition GetWorkDirInternal :: "Env \<Rightarrow> Package \<Rightarrow> string" where
  "GetWorkDirInternal env p =
     (if Type p = PackageTypeXML then ''/WORK'' else Join [BuildUserHome env, ''work''])"

definition GetWorkDir :: "Env \<Rightarrow> Package \<Rightarrow> Overlay \<Rightarrow> string" where
  "GetWorkDir env p ov = Join [MountPoint ov, drop 1 (GetWorkDirInternal env p)]"

definition GetSourceDirInternal :: "Env \<Rightarrow> Package \<Rightarrow> string" where
  "GetSourceDirInternal env p =
     (if Type p = PackageTypeXML then ''/var/cache/eopkg/archives''
      else Join [BuildUserHome env, ''YPKG'', ''sources''])"

definition GetSourceDir :: "Env \<Rightarrow> Package \<Rightarrow> Overlay \<Rightarrow> string" where
  "GetSourceDir env p ov = Join [MountPoint ov, drop 1 (GetSourceDirInternal env p)]"

text \<open>
  The loop of \<^verbatim>\<open>BindSources\<close> leaves the function on a failed \<^verbatim>\<open>MkdirAll\<close> (with the
  error), on a failed \<^verbatim>\<open>TouchFile\<close> (with \<^verbatim>\<open>nil\<close>) and on a failed \<^verbatim>\<open>BindMount\<close> (with
  the error).
\<close>

fun BindSources_loop ::
  "Env \<Rightarrow> Package \<Rightarrow> Overlay \<Rightarrow> Source list \<Rightarrow> event list \<Rightarrow> error option \<times> event list" where
  "BindSources_loop env p ov [] h = (None, h)"
| "BindSources_loop env p ov (source # rest) h =
     (let expHash = (if Type p = PackageTypeXML then SHA1Sum source else SHA256Sum source);
          localFile = GetPath env source expHash;
          sourceDir = GetSourceDir env p ov;
          ex = holds env h (PathExists sourceDir);
          h = h @ [Test (PathExists sourceDir) ex];
          (mk, h) =
            (if \<not> ex then
               (case fails env h (MkdirAll sourceDir 493) of
                  Some err \<Rightarrow>
                    (Some err,
                     h @ [Call (MkdirAll sourceDir 493) (Some err),
                          Log Error ''Failed to create source directory''
                            [(''dir'', FString sourceDir), (''error'', FError err)]])
                | None \<Rightarrow> (None, h @ [Call (MkdirAll sourceDir 493) None]))
             else (None, h))
      in case mk of
           Some err \<Rightarrow> (Some err, h)
         | None \<Rightarrow>
             (let tgtPath = Join [sourceDir, File source];
                  h = h @ [Log Debug ''Exposing source to container'' [(''target'', FString tgtPath)]]
              in case fails env h (TouchFile tgtPath) of
                   Some err \<Rightarrow>
                     (None,
                      h @ [Call (TouchFile tgtPath) (Some err),
                           Log Error ''Failed to create bind mount target''
                             [(''target'', FString tgtPath), (''error'', FError err)]])
                 | None \<Rightarrow>
                     (let h = h @ [Call (TouchFile tgtPath) None]
                      in case fails env h (BindMount localFile tgtPath) of
                           Some err \<Rightarrow>
                             (Some err,
                              h @ [Call (BindMount localFile tgtPath) (Some err),
                                   Log Error ''Failed to bind mount source''
                                     [(''target'', FString tgtPath), (''error'', FError err)]])
                         | None \<Rightarrow>
                             BindSources_loop env p ov rest
                               (h @ [Call (BindMount localFile tgtPath) None]))))"

definition BindSources ::
  "Env \<Rightarrow> Package \<Rightarrow> Overlay \<Rightarrow> event list \<Rightarrow> error option \<times> event list" where
  "BindSources env p ov h = BindSources_loop env p ov (Sources p) h"

fun CopyAssets_loop ::
  "Env \<Rightarrow> string \<Rightarrow> string \<Rightarrow> string list \<Rightarrow> event list \<Rightarrow> error option \<times> event list" where
  "CopyAssets_loop env baseDir destdir [] h = (None, h)"
| "CopyAssets_loop env baseDir destdir (p # ps) h =
     (let fso = Join [baseDir, p]
      in case fails env h (CopyAll fso destdir) of
           Some err \<Rightarrow> (Some err, h @ [Call (CopyAll fso destdir) (Some err)])
         | None \<Rightarrow> CopyAssets_loop env baseDir destdir ps (h @ [Call (CopyAll fso destdir) None]))"

definition CopyAssets ::
  "Env \<Rightarrow> Package \<Rightarrow> Overlay \<Rightarrow> event list \<Rightarrow> error option \<times> event list" where
  "CopyAssets env p ov h =
     (let baseDir = Dir (Path p)
      in case absPath env h baseDir of
           Inl err \<Rightarrow> (Some err, h @ [Abs baseDir (Inl err)])
         | Inr absDir \<Rightarrow>
             let h = h @ [Abs baseDir (Inr absDir)];
                 baseDir = absDir;
                 copyPaths = [Base (Path p), ''files'', ''comar'', ''component.xml''];
                 copyPaths = (if Type p = PackageTypeXML then copyPaths @ [''actions.py'']
                              else copyPaths);
                 destdir = GetWorkDir env p ov
             in CopyAssets_loop env baseDir destdir copyPaths h)"

section \<open>The build\<close>

text \<open>
  The part of \<^verbatim>\<open>Build\<close> that runs after the reaper has been deferred: each step either
  returns its error or hands over to the next one. Both branches of the format dispatch
  end at the same final \<^verbatim>\<open>return errors.New("Not yet implemented")\<close>.
\<close>

definition Build_steps ::
  "Env \<Rightarrow> Package \<Rightarrow> Overlay \<Rightarrow> EopkgManager \<Rightarrow> event list \<Rightarrow> error option \<times> event list" where
  "Build_steps env p overlay pman h =
     check (call env (ActivateRoot p overlay) h) (\<lambda>err. []) (\<lambda>h.
     check (CopyAssets env p overlay h)
       (\<lambda>err. [Log Error ''Failed to copy required source assets'' [(''error'', FError err)]])
       (\<lambda>h.
     check (FetchSources env p overlay (h @ [Log Info ''Validating sources'' []]))
       (\<lambda>err. []) (\<lambda>h.
     check (call env (PmanInit pman) h) (\<lambda>err. []) (\<lambda>h.
     check (call env (StartDBUS pman) (h @ [Log Debug ''Starting D-BUS'' []]))
       (\<lambda>err. [Log Error ''Failed to start d-bus'' [(''error'', FError err)]]) (\<lambda>h.
     check (call env (Upgrade pman) (h @ [Log Info ''Upgrading system base'' []]))
       (\<lambda>err. [Log Error ''Failed to upgrade rootfs'' [(''error'', FError err)]]) (\<lambda>h.
     check (call env (InstallComponent pman ''system.devel'')
              (h @ [Log Info ''Asserting system.devel component installation'' []]))
       (\<lambda>err. [Log Error ''Failed to assert system.devel'' [(''error'', FError err)]]) (\<lambda>h.
     let finish = (\<lambda>h. (Some (ErrorsNew ''Not yet implemented''), h))
     in
       if Type p = PackageTypeYpkg then
         (let wdir = GetWorkDirInternal env p;
              ymlFile = Join [wdir, Base (Path p)];
              cmd = ''ypkg-install-deps -f '' @ ymlFile
          in
            check (call env (ChrootExec (MountPoint overlay) cmd)
                     (h @ [Log Info ''Installing build dependencies''
                             [(''buildFile'', FString ymlFile)]]))
              (\<lambda>err. [Log Error ''Failed to install build dependencies''
                        [(''buildFile'', FString ymlFile), (''error'', FError err)]])
              (\<lambda>h.
            check (call env (StopDBUS pman) (h @ [Log Debug ''Stopping D-BUS'' []]))
              (\<lambda>err. [Log Error ''Failed to stop d-bus'' [(''error'', FError err)]]) (\<lambda>h.
            let cmd = ''chown -R '' @ BuildUser env @ '':'' @ BuildUser env @ '' ''
                        @ BuildUserHome env
            in
            check (call env (ChrootExec (MountPoint overlay) cmd) h)
              (\<lambda>err. [Log Error ''Failed to set home directory permissions''
                        [(''error'', FError err)]])
              (\<lambda>h.
            check (call env DropNetworking h) (\<lambda>err. []) (\<lambda>h.
            check (call env (ConfigureNetworking overlay) h) (\<lambda>err. []) (\<lambda>h.
            check (BindSources env p overlay h)
              (\<lambda>err. [Log Error ''Cannot continue without sources'' []]) (\<lambda>h.
            let cmd = ''/bin/su - '' @ BuildUser env @ '' -- fakeroot ypkg-build -D ''
                        @ wdir @ '' '' @ ymlFile
            in
            check (call env (ChrootExec (MountPoint overlay) cmd)
                     (h @ [Log Info ''Now starting build of package''
                             [(''package'', FString (Package.Name p))]]))
              (\<lambda>err. [Log Error ''Failed to build package'' [(''error'', FError err)]])
              finish)))))))
       else
         check (call env (StopDBUS pman)
                  (h @ [Log Warning ''Full sandboxing is not possible with legacy format'' [],
                        Log Debug ''Stopping D-BUS'' []]))
           (\<lambda>err. [Log Error ''Failed to stop d-bus'' [(''error'', FError err)]])
           finish)))))))"

text \<open>
  \<^verbatim>\<open>Build\<close>: the reaper is made, deferred and handed to \<^verbatim>\<open>HandleInterrupt\<close> once
  \<^verbatim>\<open>CleanExisting\<close> has returned without error; the deferred call runs when the rest of
  the function returns, whatever it returns.
\<close>

definition Build ::
  "Env \<Rightarrow> Package \<Rightarrow> BackingImage \<Rightarrow> event list \<Rightarrow> error option \<times> event list" where
  "Build env p img h =
     (let h = h @ [Log Info ''Building package''
                     [(''profile'', FString (BackingImage.Name img)),
                      (''version'', FString (Version p)),
                      (''package'', FString (Package.Name p)),
                      (''type'', FType (Type p)),
                      (''release'', FInt (Release p))]];
          overlay = NewOverlay env img p
      in
        check (call env (CleanExisting overlay) h) (\<lambda>err. []) (\<lambda>h.
          let pman = NewEopkgManager (MountPoint overlay);
              reaper = GrimReaper overlay p pman;
              h = h @ [Defer reaper, HandleInterrupt reaper];
              (r, h) = Build_steps env p overlay pman h
          in (r, h @ [RunDeferred reaper])))"

text \<open>
  Modelled from the spec: \<^verbatim>\<open>HandleInterrupt\<close> is missing from the files modelled here. The
  spec says that the orchestrator installs a signal-handling hook that invokes the same
  reaper before the process terminates, and that no operation is resumed after an
  interruption. A build interrupted after the first \<open>n\<close> events of its run is that run
  cut off there: the signal arrives, the hook that the run has installed by then (the
  last one, when there is one) invokes its reaper, and the process terminates, so nothing
  deferred runs. Without a hook the signal just terminates the process.
\<close>

definition hook_of :: "event \<Rightarrow> Reaper list" where
  "hook_of e = (case e of HandleInterrupt r \<Rightarrow> [r] | _ \<Rightarrow> [])"

definition hooks :: "event list \<Rightarrow> Reaper list" where
  "hooks es = concat (map hook_of es)"

definition Build_interrupted ::
  "Env \<Rightarrow> Package \<Rightarrow> BackingImage \<Rightarrow> event list \<Rightarrow> nat \<Rightarrow> event list" where
  "Build_interrupted env p img h n =
     (let ran = take n (drop (length h) (snd (Build env p img h)))
      in h @ ran @ [Interrupted]
           @ (case hooks ran of [] \<Rightarrow> [] | r # rs \<Rightarrow> [RunHook (last (r # rs))])
           @ [Terminated])"

section \<open>The commands (cmd package)\<close>

text \<open>The lines \<^verbatim>\<open>EmitProfileError\<close> writes to standard error, one event per call.\<close>

definition EmitProfileError :: "string \<Rightarrow> event list \<Rightarrow> event list" where
  "EmitProfileError profile h =
     h @ [Stderr (''Error: '' @ [CHR 0x27] @ profile @ [CHR 0x27]
                    @ '' is not a known profile\<newline>''),
          Stderr ''Valid profiles include:\<newline>\<newline>'']
       @ map (\<lambda>p. Stderr ('' * '' @ p @ ''\<newline>'')) ValidProfiles
       @ [Stderr (''\<newline>The default profile is: '' @ DefaultProfile @ ''\<newline>'')]"

definition IsInstalled :: "Env \<Rightarrow> BackingImage \<Rightarrow> event list \<Rightarrow> bool \<times> event list" where
  "IsInstalled env b h =
     (let ex = holds env h (PathExists (ImagePath b))
      in (ex, h @ [Test (PathExists (ImagePath b)) ex]))"

definition error_text :: "error \<Rightarrow> string" where
  "error_text err = (case err of ErrorsNew s \<Rightarrow> s | ExternalError s \<Rightarrow> s)"

text \<open>
  \<^verbatim>\<open>buildPackage\<close> returns the error it hands to the command dispatcher (\<^verbatim>\<open>nil\<close> is
  \<^const>\<open>None\<close>); \<^verbatim>\<open>profile\<close> is the value of the flag.
\<close>

definition buildPackage ::
  "Env \<Rightarrow> string \<Rightarrow> string list \<Rightarrow> event list \<Rightarrow> error option \<times> event list" where
  "buildPackage env profile args h =
     (let (pkgPath, h) =
            (if length args = 1 then (args ! 0, h)
             else (let found = findLikelyArg env h in (found, h @ [FindLikelyArg found])))
      in
        if \<not> IsValidProfile profile then (None, EmitProfileError profile h)
        else
          (let pkgPath = TrimSpace env pkgPath
           in
             if pkgPath = [] then (Some (ErrorsNew ''Require a filename to build''), h)
             else
               (let bk = NewBackingImage profile;
                    (installed, h) = IsInstalled env bk h
                in
                  if \<not> installed then
                    (None,
                     h @ [Stderr (''Cannot find profile '' @ [CHR 0x27] @ profile @ [CHR 0x27]
                                    @ ''. Did you forget to run init?\<newline>'')])
                  else
                    (case newPackage env h pkgPath of
                       Inl err \<Rightarrow>
                         (None,
                          h @ [NewPackage pkgPath (Inl err),
                               Stderr (''Failed to load package: '' @ error_text err
                                         @ ''\<newline>'')])
                     | Inr pkg \<Rightarrow>
                         (let h = h @ [NewPackage pkgPath (Inr pkg),
                                       Log Info ''Building package''
                                         [(''profile'', FString profile),
                                          (''version'', FString (Version pkg)),
                                          (''package'', FString (Package.Name pkg)),
                                          (''type'', FType (Type pkg)),
                                          (''release'', FInt (Release pkg))]]
                          in
                            if Type pkg \<noteq> PackageTypeYpkg then
                              (None,
                               h @ [Log Warning
                                      ''Full sandboxing is not possible with legacy format'' []])
                            else (None, h))))))"

text \<open>
  \<^verbatim>\<open>updateProfile\<close> has no result: it either returns or ends the process with
  \<^verbatim>\<open>os.Exit(1)\<close>.
\<close>

datatype outcome = Returned | Exit int

definition updateProfile ::
  "Env \<Rightarrow> string \<Rightarrow> string list \<Rightarrow> event list \<Rightarrow> outcome \<times> event list" where
  "updateProfile env profile args h =
     (let profile = (if length args = 1 then TrimSpace env (args ! 0) else profile)
      in
        if \<not> IsValidProfile profile then (Returned, EmitProfileError profile h)
        else
          (let bk = NewBackingImage profile;
               (installed, h) = IsInstalled env bk h
           in
             if \<not> installed then
               (Exit 1,
                h @ [Stderr (''Cannot find profile '' @ [CHR 0x27] @ profile @ [CHR 0x27]
                               @ ''. Did you forget to run init?\<newline>'')])
             else
               (let uid = geteuid env h;
                    h = h @ [Geteuid uid]
                in
                  if uid \<noteq> 0 then
                    (Exit 1, h @ [Stderr ''You must be root to run init profiles\<newline>''])
                  else
                    (case fails env h (Update bk) of
                       Some err \<Rightarrow> (Exit 1, h @ [Call (Update bk) (Some err)])
                     | None \<Rightarrow> (Returned, h @ [Call (Update bk) None])))))"

section \<open>Notions used in the statements\<close>

text \<open>
  A proper path element is a single name: not empty, not \<^verbatim>\<open>.\<close> or \<^verbatim>\<open>..\<close>, without a
  separator. \<open>rooted_path [e1, ..., en]\<close> is the absolute path \<^verbatim>\<open>/e1/.../en\<close>.
\<close>

definition proper_elem :: "string \<Rightarrow> bool" where
  "proper_elem e = (e \<noteq> [] \<and> e \<noteq> ''.'' \<and> e \<noteq> ''..'' \<and> Separator \<notin> set e)"

definition rooted_path :: "string list \<Rightarrow> string" where
  "rooted_path es = concat (map (\<lambda>e. Separator # e) es)"

text \<open>
  Projections of a history: the queries asked, the sources a fetch was called for, the
  sources whose cache check failed, and the bind mounts that were called.
\<close>

definition query_of :: "event \<Rightarrow> query list" where
  "query_of e = (case e of Test q b \<Rightarrow> [q] | _ \<Rightarrow> [])"

definition queries :: "event list \<Rightarrow> query list" where
  "queries es = concat (map query_of es)"

definition fetch_of :: "event \<Rightarrow> Source list" where
  "fetch_of e = (case e of Call (Fetch s) r \<Rightarrow> [s] | _ \<Rightarrow> [])"

definition fetched :: "event list \<Rightarrow> Source list" where
  "fetched es = concat (map fetch_of es)"

definition miss_of :: "event \<Rightarrow> Source list" where
  "miss_of e = (case e of Test (IsFetched s x) b \<Rightarrow> (if b then [] else [s]) | _ \<Rightarrow> [])"

definition misses :: "event list \<Rightarrow> Source list" where
  "misses es = concat (map miss_of es)"

definition bind_of :: "event \<Rightarrow> (string \<times> string) list" where
  "bind_of e = (case e of Call (BindMount l t) r \<Rightarrow> [(l, t)] | _ \<Rightarrow> [])"

definition bind_mounts :: "event list \<Rightarrow> (string \<times> string) list" where
  "bind_mounts es = concat (map bind_of es)"

text \<open>
  The digest selection as the spec words it: the legacy format uses the SHA-1 sum of a
  source, the modern format its SHA-256 sum.
\<close>

definition digest_for :: "PackageType \<Rightarrow> Source \<Rightarrow> string" where
  "digest_for t s = (case t of PackageTypeXML \<Rightarrow> SHA1Sum s | PackageTypeYpkg \<Rightarrow> SHA256Sum s)"

text \<open>
  The events that concern the reaper, the reapers that were run (deferred or by the hook),
  in order, and the events of the steps that only the modern
  format runs: the commands executed in the chroot, dropping and configuring the
  network, and what binding the sources does. A system on which every step succeeds
  answers no call with an error and resolves every path.
\<close>

definition reaper_event :: "event \<Rightarrow> bool" where
  "reaper_event e =
     (case e of
        Defer r \<Rightarrow> True
      | HandleInterrupt r \<Rightarrow> True
      | RunDeferred r \<Rightarrow> True
      | RunHook r \<Rightarrow> True
      | _ \<Rightarrow> False)"

definition run_of :: "event \<Rightarrow> Reaper list" where
  "run_of e = (case e of RunDeferred r \<Rightarrow> [r] | RunHook r \<Rightarrow> [r] | _ \<Rightarrow> [])"

definition reaper_runs :: "event list \<Rightarrow> Reaper list" where
  "reaper_runs es = concat (map run_of es)"

definition isolation_step :: "event \<Rightarrow> bool" where
  "isolation_step e =
     (case e of
        Call a r \<Rightarrow>
          (case a of
             ChrootExec root cmd \<Rightarrow> True
           | DropNetworking \<Rightarrow> True
           | ConfigureNetworking ov \<Rightarrow> True
           | MkdirAll d m \<Rightarrow> True
           | TouchFile t \<Rightarrow> True
           | BindMount l t \<Rightarrow> True
           | _ \<Rightarrow> False)
      | Test q b \<Rightarrow> (case q of PathExists d \<Rightarrow> True | _ \<Rightarrow> False)
      | _ \<Rightarrow> False)"

definition succeeds :: "Env \<Rightarrow> bool" where
  "succeeds env = ((\<forall>h a. fails env h a = None) \<and> (\<forall>h d. \<exists>r. absPath env h d = Inr r))"

subsection \<open>Example inputs\<close>

text \<open>
  A system where nothing is cached, no directory exists and every call succeeds; a
  modern-format package with two sources; an overlay mounted at \<^verbatim>\<open>/mnt\<close>.
\<close>

definition env_ok :: Env where
  "env_ok =
     \<lparr> fails = (\<lambda>h a. None),
       holds = (\<lambda>h q. False),
       absPath = (\<lambda>h d. Inr (Join [''/src/pkg'', d])),
       findLikelyArg = (\<lambda>h. ''package.yml''),
       newPackage = (\<lambda>h path. Inl (ExternalError ''no such file'')),
       geteuid = (\<lambda>h. 0),
       NewOverlay = (\<lambda>img p. \<lparr> MountPoint = ''/mnt'' \<rparr>),
       GetPath = (\<lambda>s hash. ''/cache/'' @ hash),
       TrimSpace = (\<lambda>s. s),
       BuildUser = ''build'',
       BuildUserHome = ''/home/build'' \<rparr>"

definition src_a :: Source where
  "src_a = \<lparr> URI = ''http://e/a.tar'', File = ''a.tar'', SHA1Sum = ''a1'', SHA256Sum = ''a256'' \<rparr>"

definition src_b :: Source where
  "src_b = \<lparr> URI = ''http://e/b.tar'', File = ''b.tar'', SHA1Sum = ''b1'', SHA256Sum = ''b256'' \<rparr>"

definition pkg_yml :: Package where
  "pkg_yml = \<lparr> Name = ''demo'', Version = ''1.0'', Release = 1, Type = PackageTypeYpkg,
               Path = ''package.yml'', Sources = [src_a, src_b] \<rparr>"

definition ov_mnt :: Overlay where
  "ov_mnt = \<lparr> MountPoint = ''/mnt'' \<rparr>"

lemmas ex_defs = env_ok_def src_a_def src_b_def pkg_yml_def ov_mnt_def

section \<open>Path lemmas\<close>

lemma split_sep_nonempty: "split_sep s \<noteq> []"
  by (induction s) (auto split: list.splits)

lemma split_sep_plain: "Separator \<notin> set e \<Longrightarrow> split_sep e = [e]"
  by (induction e) auto

lemma split_sep_append:
  "Separator \<notin> set e \<Longrightarrow> split_sep (e @ Separator # rest) = e # split_sep rest"
  by (induction e) auto

lemma split_sep_rooted:
  "\<forall>e\<in>set es. Separator \<notin> set e \<Longrightarrow> es \<noteq> [] \<Longrightarrow> split_sep (rooted_path es) = [] # es"
proof (induction es)
  case Nil
  then show ?case by simp
next
  case (Cons e es)
  show ?case
  proof (cases "es = []")
    case True
    with Cons.prems show ?thesis by (simp add: rooted_path_def split_sep_plain)
  next
    case False
    with Cons have "split_sep (rooted_path es) = [] # es" by simp
    moreover from False obtain x xs where "es = x # xs" by (cases es) auto
    then have "rooted_path (e # es) = Separator # (e @ Separator # x @ rooted_path xs)"
      by (simp add: rooted_path_def)
    moreover have "rooted_path es = Separator # x @ rooted_path xs"
      using \<open>es = x # xs\<close> by (simp add: rooted_path_def)
    ultimately show ?thesis using Cons.prems
      by (simp add: split_sep_append)
  qed
qed

lemma clean_elems_proper:
  "\<forall>e\<in>set es. proper_elem e \<Longrightarrow> clean_elems r out es = out @ es"
  by (induction es arbitrary: out) (auto simp: proper_elem_def)

lemma join_sep_rooted: "es \<noteq> [] \<Longrightarrow> Separator # join_sep es = rooted_path es"
  by (induction es rule: join_sep.induct) (auto simp: rooted_path_def)

lemma Clean_rooted:
  assumes "\<forall>e\<in>set es. proper_elem e" "es \<noteq> []"
  shows "Clean (rooted_path es) = rooted_path es"
proof -
  from assms(2) have hd: "rooted_path es = Separator # join_sep es"
    by (simp add: join_sep_rooted)
  from assms have sp: "split_sep (rooted_path es) = [] # es"
    by (intro split_sep_rooted) (auto simp: proper_elem_def)
  have "clean_elems True [] ([] # es) = es"
    using assms(1) by (simp add: clean_elems_proper)
  then show ?thesis
    unfolding Clean_def using sp hd by (simp add: Let_def)
qed

lemma Clean_nonempty: "Clean s \<noteq> []"
  by (simp add: Clean_def Let_def)

lemma rooted_path_append: "rooted_path (xs @ ys) = rooted_path xs @ rooted_path ys"
  by (simp add: rooted_path_def)

lemma Join_rooted:
  assumes "\<forall>e\<in>set ds. proper_elem e" "ds \<noteq> []" "\<forall>e\<in>set es. proper_elem e" "es \<noteq> []"
  shows "Join [rooted_path ds, join_sep es] = rooted_path (ds @ es)"
proof -
  have ne: "rooted_path ds \<noteq> []" using assms(2) by (cases ds) (auto simp: rooted_path_def)
  have "join_sep [rooted_path ds, join_sep es] = rooted_path (ds @ es)"
    using assms(4) by (simp add: rooted_path_append join_sep_rooted)
  moreover have "Clean (rooted_path (ds @ es)) = rooted_path (ds @ es)"
    using assms by (intro Clean_rooted) auto
  ultimately show ?thesis using ne by (simp add: Join_def)
qed

lemma Join_rooted1:
  assumes "\<forall>e\<in>set ds. proper_elem e" "ds \<noteq> []" "proper_elem x"
  shows "Join [rooted_path ds, x] = rooted_path ds @ Separator # x"
  using Join_rooted[OF assms(1,2), of "[x]"] assms(3) by (simp add: rooted_path_append rooted_path_def)

lemma ImagesDir_rooted: "ImagesDir = rooted_path [''var'', ''lib'', ''solbuild'', ''images'']"
  by (simp add: ImagesDir_def rooted_path_def Separator_def)

lemma ImageRootsDir_rooted: "ImageRootsDir = rooted_path [''var'', ''lib'', ''solbuild'', ''roots'']"
  by (simp add: ImageRootsDir_def rooted_path_def Separator_def)

lemma proper_suffixed:
  "Separator \<notin> set n \<Longrightarrow> proper_elem (n @ ImageSuffix) \<and> proper_elem (n @ ImageCompressedSuffix)"
  by (cases n rule: rev_cases)
     (auto simp: proper_elem_def ImageSuffix_def ImageCompressedSuffix_def Separator_def
           append_eq_Cons_conv)

lemma ImagePath_proper:
  assumes "Separator \<notin> set n"
  shows "ImagePath (NewBackingImage n) = ImagesDir @ ''/'' @ n @ ImageSuffix"
    and "ImagePathXZ (NewBackingImage n) = ImagesDir @ ''/'' @ n @ ImageCompressedSuffix"
proof -
  have dirs: "\<forall>e\<in>set [''var'', ''lib'', ''solbuild'', ''images'']. proper_elem e"
    by (simp add: proper_elem_def Separator_def)
  show "ImagePath (NewBackingImage n) = ImagesDir @ ''/'' @ n @ ImageSuffix"
    using Join_rooted1[OF dirs _ conjunct1[OF proper_suffixed[OF assms]]]
    by (simp add: NewBackingImage_def ImagesDir_rooted Separator_def)
  show "ImagePathXZ (NewBackingImage n) = ImagesDir @ ''/'' @ n @ ImageCompressedSuffix"
    using Join_rooted1[OF dirs _ conjunct2[OF proper_suffixed[OF assms]]]
    by (simp add: NewBackingImage_def ImagesDir_rooted Separator_def)
qed

lemma RootDir_proper:
  assumes "proper_elem n"
  shows "RootDir (NewBackingImage n) = ImageRootsDir @ ''/'' @ n"
proof -
  have dirs: "\<forall>e\<in>set [''var'', ''lib'', ''solbuild'', ''roots'']. proper_elem e"
    by (simp add: proper_elem_def Separator_def)
  show ?thesis
    using Join_rooted1[OF dirs _ assms]
    by (simp add: NewBackingImage_def ImageRootsDir_rooted Separator_def)
qed

section \<open>Backing images\<close>

text \<open>
  C8 (as amended). \<^verbatim>\<open>NewBackingImage\<close> is a function of the profile name alone and touches
  nothing. The origin URI is the base URI, a slash, the name and the compressed suffix,
  so different names always have different URIs. The three file-system paths go through
  \<^verbatim>\<open>filepath.Join\<close>, which cleans them: for a name without a separator the image paths
  are the images directory, a slash, the name and the suffix, and for a proper path
  element the root directory is the roots directory, a slash and the name; two different
  such names never share an image path, a compressed image path or a root directory.
\<close>

theorem NewBackingImage_paths:
  "ImageURI (NewBackingImage n) = ImageBaseURI @ ''/'' @ n @ ImageCompressedSuffix
   \<and> (ImageURI (NewBackingImage n) = ImageURI (NewBackingImage m) \<longrightarrow> n = m)
   \<and> (Separator \<notin> set n \<longrightarrow>
        ImagePath (NewBackingImage n) = ImagesDir @ ''/'' @ n @ ImageSuffix
        \<and> ImagePathXZ (NewBackingImage n) = ImagesDir @ ''/'' @ n @ ImageCompressedSuffix)
   \<and> (proper_elem n \<longrightarrow> RootDir (NewBackingImage n) = ImageRootsDir @ ''/'' @ n)
   \<and> (Separator \<notin> set n \<and> Separator \<notin> set m \<and> n \<noteq> m \<longrightarrow>
        ImagePath (NewBackingImage n) \<noteq> ImagePath (NewBackingImage m)
        \<and> ImagePathXZ (NewBackingImage n) \<noteq> ImagePathXZ (NewBackingImage m))
   \<and> (proper_elem n \<and> proper_elem m \<and> n \<noteq> m \<longrightarrow>
        RootDir (NewBackingImage n) \<noteq> RootDir (NewBackingImage m))"
proof (intro conjI impI)
  show "ImageURI (NewBackingImage n) = ImageBaseURI @ ''/'' @ n @ ImageCompressedSuffix"
    by (simp add: NewBackingImage_def)
  show "n = m" if "ImageURI (NewBackingImage n) = ImageURI (NewBackingImage m)"
    using that by (simp add: NewBackingImage_def)
  show "ImagePath (NewBackingImage n) = ImagesDir @ ''/'' @ n @ ImageSuffix"
    if "Separator \<notin> set n" using that by (rule ImagePath_proper)
  show "ImagePathXZ (NewBackingImage n) = ImagesDir @ ''/'' @ n @ ImageCompressedSuffix"
    if "Separator \<notin> set n" using that by (rule ImagePath_proper)
  show "RootDir (NewBackingImage n) = ImageRootsDir @ ''/'' @ n" if "proper_elem n"
    using that by (rule RootDir_proper)
  show "ImagePath (NewBackingImage n) \<noteq> ImagePath (NewBackingImage m)"
    if "Separator \<notin> set n \<and> Separator \<notin> set m \<and> n \<noteq> m"
    using that by (simp add: ImagePath_proper)
  show "ImagePathXZ (NewBackingImage n) \<noteq> ImagePathXZ (NewBackingImage m)"
    if "Separator \<notin> set n \<and> Separator \<notin> set m \<and> n \<noteq> m"
    using that by (simp add: ImagePath_proper)
  show "RootDir (NewBackingImage n) \<noteq> RootDir (NewBackingImage m)"
    if "proper_elem n \<and> proper_elem m \<and> n \<noteq> m"
    using that by (simp add: RootDir_proper)
qed

theorem NewBackingImage_paths_witness:
  "proper_elem ''main-x86_64'' \<and> proper_elem ''unstable-x86_64''
   \<and> Separator \<notin> set ''main-x86_64'' \<and> Separator \<notin> set ''unstable-x86_64''
   \<and> ''main-x86_64'' \<noteq> ''unstable-x86_64''
   \<and> ImageURI (NewBackingImage ''main-x86_64'') \<noteq> ImageURI (NewBackingImage ''unstable-x86_64'')
   \<and> ImagePath (NewBackingImage ''main-x86_64'') = ''/var/lib/solbuild/images/main-x86_64.img''
   \<and> ImagePath (NewBackingImage ''main-x86_64'') \<noteq> ImagePath (NewBackingImage ''unstable-x86_64'')
   \<and> ImagePathXZ (NewBackingImage ''main-x86_64'') \<noteq> ImagePathXZ (NewBackingImage ''unstable-x86_64'')
   \<and> RootDir (NewBackingImage ''main-x86_64'') \<noteq> RootDir (NewBackingImage ''unstable-x86_64'')"
proof -
  have p: "proper_elem ''main-x86_64''" "proper_elem ''unstable-x86_64''"
    by (simp_all add: proper_elem_def Separator_def)
  have q: "Separator \<notin> set ''main-x86_64''" "Separator \<notin> set ''unstable-x86_64''"
    by (simp_all add: Separator_def)
  have ne: "''main-x86_64'' \<noteq> ''unstable-x86_64''"
    by simp
  note T = NewBackingImage_paths [of "''main-x86_64''" "''unstable-x86_64''"]
  have "ImagePath (NewBackingImage ''main-x86_64'') = ImagesDir @ ''/'' @ ''main-x86_64'' @ ImageSuffix"
    using T q by blast
  then have path: "ImagePath (NewBackingImage ''main-x86_64'') = ''/var/lib/solbuild/images/main-x86_64.img''"
    by (simp add: ImagesDir_def ImageSuffix_def)
  show ?thesis
    using T p q ne path by blast
qed

text \<open>
  C8 as stated fails for names that clean to the same path: \<^verbatim>\<open>a\<close> and \<^verbatim>\<open>./a\<close> are
  different names with the same image path, compressed image path and root directory.
\<close>

theorem NewBackingImage_collision:
  "''a'' \<noteq> ''./a''
   \<and> ImagePath (NewBackingImage ''a'') = ImagePath (NewBackingImage ''./a'')
   \<and> ImagePathXZ (NewBackingImage ''a'') = ImagePathXZ (NewBackingImage ''./a'')
   \<and> RootDir (NewBackingImage ''a'') = RootDir (NewBackingImage ''./a'')"
  by (simp add: NewBackingImage_def Join_def Clean_def Let_def Separator_def ImagesDir_def
        ImageSuffix_def ImageCompressedSuffix_def ImageRootsDir_def)

section \<open>Fetching sources\<close>

lemma FetchSources_loop_append:
  "FetchSources_loop env p (xs @ ys) h = FetchSources_loop env p ys (FetchSources_loop env p xs h)"
  by (induction xs arbitrary: h) (auto simp: Let_def split: option.splits)

lemma queries_append [simp]: "queries (xs @ ys) = queries xs @ queries ys"
  by (simp add: queries_def)

lemma fetched_append [simp]: "fetched (xs @ ys) = fetched xs @ fetched ys"
  by (simp add: fetched_def)

lemma misses_append [simp]: "misses (xs @ ys) = misses xs @ misses ys"
  by (simp add: misses_def)

lemma bind_mounts_append [simp]: "bind_mounts (xs @ ys) = bind_mounts xs @ bind_mounts ys"
  by (simp add: bind_mounts_def)

lemma FetchSources_loop_queries:
  "queries (FetchSources_loop env p srcs h) =
     queries h @ map (\<lambda>s. IsFetched s (if Type p = PackageTypeXML then SHA1Sum s else SHA256Sum s)) srcs"
  by (induction srcs arbitrary: h)
     (auto simp: Let_def queries_def query_of_def split: option.splits)

lemma FetchSources_loop_fetched:
  "\<exists>ss. fetched (FetchSources_loop env p srcs h) = fetched h @ ss
        \<and> misses (FetchSources_loop env p srcs h) = misses h @ ss"
proof (induction srcs arbitrary: h)
  case Nil
  then show ?case by simp
next
  case (Cons s srcs)
  let ?e = "if Type p = PackageTypeXML then SHA1Sum s else SHA256Sum s"
  show ?case
  proof (cases "holds env h (IsFetched s ?e)")
    case True
    let ?h1 = "h @ [Test (IsFetched s ?e) True]"
    from Cons.IH[of ?h1] obtain ss where
      "fetched (FetchSources_loop env p srcs ?h1) = fetched ?h1 @ ss"
      "misses (FetchSources_loop env p srcs ?h1) = misses ?h1 @ ss" by blast
    with True show ?thesis
      by (auto simp: Let_def fetched_def misses_def fetch_of_def miss_of_def)
  next
    case False
    let ?h1 = "h @ [Test (IsFetched s ?e) False,
                       Log Info ''Downloading source'' [(''uri'', FString (URI s))]]"
    let ?h2 = "\<lambda>r. ?h1 @ (case r of Some err \<Rightarrow> [Call (Fetch s) (Some err),
                         Log Error ''Failed to fetch source''
                           [(''error'', FError err), (''uri'', FString (URI s))]] | None \<Rightarrow> [Call (Fetch s) None])"
    let ?r = "fails env ?h1 (Fetch s)"
    have step: "FetchSources_loop env p (s # srcs) h = FetchSources_loop env p srcs (?h2 ?r)"
      using False by (auto simp: Let_def split: option.splits)
    from Cons.IH[of "?h2 ?r"] obtain ss where
      "fetched (FetchSources_loop env p srcs (?h2 ?r)) = fetched (?h2 ?r) @ ss"
      "misses (FetchSources_loop env p srcs (?h2 ?r)) = misses (?h2 ?r) @ ss" by blast
    then have "fetched (FetchSources_loop env p (s # srcs) h) = fetched h @ (s # ss)
        \<and> misses (FetchSources_loop env p (s # srcs) h) = misses h @ (s # ss)"
      unfolding step
      by (auto simp: fetched_def misses_def fetch_of_def miss_of_def split: option.splits)
    then show ?thesis by blast
  qed
qed

text \<open>
  C3. \<^verbatim>\<open>FetchSources\<close> returns \<^verbatim>\<open>nil\<close> whatever happens; every source of the package
  is checked against the cache, in order; and when the fetch of a source fails, the
  failure is logged with the error and the URI and the loop goes on with the sources
  that follow.
\<close>

theorem FetchSources_continues:
  "fst (FetchSources env p ov h0) = None
   \<and> queries (snd (FetchSources env p ov h0)) =
       queries h0 @ map (\<lambda>s. IsFetched s (if Type p = PackageTypeXML then SHA1Sum s else SHA256Sum s))
                      (Sources p)
   \<and> (Sources p = pre @ s # rest
        \<and> h = FetchSources_loop env p pre h0
        \<and> e = (if Type p = PackageTypeXML then SHA1Sum s else SHA256Sum s)
        \<and> \<not> holds env h (IsFetched s e)
        \<and> h' = h @ [Test (IsFetched s e) False,
                     Log Info ''Downloading source'' [(''uri'', FString (URI s))]]
        \<and> fails env h' (Fetch s) = Some err
      \<longrightarrow> snd (FetchSources env p ov h0) =
            FetchSources_loop env p rest
              (h' @ [Call (Fetch s) (Some err),
                     Log Error ''Failed to fetch source''
                       [(''error'', FError err), (''uri'', FString (URI s))]]))"
  by (auto simp: FetchSources_def FetchSources_loop_queries FetchSources_loop_append Let_def)

theorem FetchSources_continues_witness:
  "Sources pkg_yml = [] @ src_a # [src_b]
   \<and> \<not> holds (env_ok\<lparr>fails := \<lambda>h a. if a = Fetch src_a then Some (ExternalError ''timeout'') else None\<rparr>)
          [] (IsFetched src_a ''a256'')
   \<and> FetchSources (env_ok\<lparr>fails := \<lambda>h a. if a = Fetch src_a then Some (ExternalError ''timeout'') else None\<rparr>)
        pkg_yml ov_mnt [] =
      (None,
       [Test (IsFetched src_a ''a256'') False,
        Log Info ''Downloading source'' [(''uri'', FString ''http://e/a.tar'')],
        Call (Fetch src_a) (Some (ExternalError ''timeout'')),
        Log Error ''Failed to fetch source''
          [(''error'', FError (ExternalError ''timeout'')), (''uri'', FString ''http://e/a.tar'')],
        Test (IsFetched src_b ''b256'') False,
        Log Info ''Downloading source'' [(''uri'', FString ''http://e/b.tar'')],
        Call (Fetch src_b) None])"
  using FetchSources_continues
    [of "env_ok\<lparr>fails := \<lambda>h a. if a = Fetch src_a then Some (ExternalError ''timeout'') else None\<rparr>"
        pkg_yml ov_mnt "[]" "[]" src_a "[src_b]" "[]" "''a256''"
        "[Test (IsFetched src_a ''a256'') False,
          Log Info ''Downloading source'' [(''uri'', FString ''http://e/a.tar'')]]"
        "ExternalError ''timeout''"]
  by (simp add: ex_defs FetchSources_def)

text \<open>
  C7. When the cache check of a source answers that it is fetched, the check is the only
  thing \<^verbatim>\<open>FetchSources\<close> does for that source before it goes on to the next one; no
  other question (such as the age of the file) is asked. The sources for which a fetch
  is called during a run are exactly those whose check failed during that run, in the
  same order.
\<close>

theorem FetchSources_skips_cached:
  "(Sources p = pre @ s # rest
      \<and> h = FetchSources_loop env p pre h0
      \<and> e = (if Type p = PackageTypeXML then SHA1Sum s else SHA256Sum s)
      \<and> holds env h (IsFetched s e)
    \<longrightarrow> snd (FetchSources env p ov h0) =
          FetchSources_loop env p rest (h @ [Test (IsFetched s e) True]))
   \<and> (\<exists>ss. fetched (snd (FetchSources env p ov h0)) = fetched h0 @ ss
           \<and> misses (snd (FetchSources env p ov h0)) = misses h0 @ ss)"
  using FetchSources_loop_fetched[of env p "Sources p" h0]
  by (auto simp: FetchSources_def FetchSources_loop_append Let_def)

theorem FetchSources_skips_cached_witness:
  "Sources pkg_yml = [] @ src_a # [src_b]
   \<and> holds (env_ok\<lparr>holds := \<lambda>h q. q = IsFetched src_a ''a256''\<rparr>) [] (IsFetched src_a ''a256'')
   \<and> snd (FetchSources (env_ok\<lparr>holds := \<lambda>h q. q = IsFetched src_a ''a256''\<rparr>) pkg_yml ov_mnt []) =
       [Test (IsFetched src_a ''a256'') True,
        Test (IsFetched src_b ''b256'') False,
        Log Info ''Downloading source'' [(''uri'', FString ''http://e/b.tar'')],
        Call (Fetch src_b) None]"
  using FetchSources_skips_cached
    [of pkg_yml "[]" src_a "[src_b]" "[]" "env_ok\<lparr>holds := \<lambda>h q. q = IsFetched src_a ''a256''\<rparr>"
        "[]" "''a256''" ov_mnt]
  by (simp add: ex_defs FetchSources_def)

section \<open>Binding sources\<close>

lemma BindSources_loop_prefix:
  "prefix h (snd (BindSources_loop env p ov srcs h))"
proof (induction srcs arbitrary: h)
  case Nil
  then show ?case by simp
next
  case (Cons s srcs)
  have trans: "\<And>evs h'. prefix (h @ evs) h' \<Longrightarrow> prefix h h'"
    using append_prefixD by blast
  show ?case
    by (auto simp: Let_def split: option.splits prod.splits if_splits intro!: trans[OF Cons.IH])
qed

lemma BindSources_loop_touch:
  "Call (TouchFile t) (Some err) \<in> set (drop (length h) (snd (BindSources_loop env p ov srcs h)))
   \<Longrightarrow> fst (BindSources_loop env p ov srcs h) = None
       \<and> (\<exists>pre. snd (BindSources_loop env p ov srcs h) =
             pre @ [Call (TouchFile t) (Some err),
                    Log Error ''Failed to create bind mount target''
                      [(''target'', FString t), (''error'', FError err)]])"
proof (induction srcs arbitrary: h)
  case Nil
  then show ?case by simp
next
  case (Cons s srcs)
  define sourceDir where "sourceDir = GetSourceDir env p ov"
  define tgt where "tgt = Join [sourceDir, File s]"
  define localFile where
    "localFile = GetPath env s (if Type p = PackageTypeXML then SHA1Sum s else SHA256Sum s)"
  have rec: ?case
    if eq: "BindSources_loop env p ov (s # srcs) h = BindSources_loop env p ov srcs (h @ evs)"
      and clean: "Call (TouchFile t) (Some err) \<notin> set evs" for evs
  proof -
    from BindSources_loop_prefix[of "h @ evs" env p ov srcs]
    obtain more where more: "snd (BindSources_loop env p ov srcs (h @ evs)) = (h @ evs) @ more"
      by (auto elim: prefixE)
    from Cons.prems have "Call (TouchFile t) (Some err) \<in> set more"
      using clean unfolding eq more by simp
    then have "Call (TouchFile t) (Some err)
        \<in> set (drop (length (h @ evs)) (snd (BindSources_loop env p ov srcs (h @ evs))))"
      unfolding more by simp
    from Cons.IH[OF this] show ?thesis unfolding eq .
  qed
  show ?case
  proof (cases "holds env h (PathExists sourceDir)")
    case ex: True
    let ?h1 = "h @ [Test (PathExists sourceDir) True,
                    Log Debug ''Exposing source to container'' [(''target'', FString tgt)]]"
    show ?thesis
    proof (cases "fails env ?h1 (TouchFile tgt)")
      case (Some e1)
      with ex Cons.prems show ?thesis
        by (auto simp: Let_def sourceDir_def tgt_def)
    next
      case t: None
      show ?thesis
      proof (cases "fails env (?h1 @ [Call (TouchFile tgt) None]) (BindMount localFile tgt)")
        case (Some e2)
        with ex t Cons.prems show ?thesis
          by (auto simp: Let_def sourceDir_def tgt_def localFile_def)
      next
        case None
        with ex t show ?thesis
          by (intro rec[of "[Test (PathExists sourceDir) True,
                    Log Debug ''Exposing source to container'' [(''target'', FString tgt)],
                    Call (TouchFile tgt) None, Call (BindMount localFile tgt) None]"])
             (auto simp: Let_def sourceDir_def tgt_def localFile_def)
      qed
    qed
  next
    case ex: False
    show ?thesis
    proof (cases "fails env (h @ [Test (PathExists sourceDir) False]) (MkdirAll sourceDir 493)")
      case (Some e0)
      with ex Cons.prems show ?thesis
        by (auto simp: Let_def sourceDir_def tgt_def)
    next
      case mk: None
      let ?h1 = "h @ [Test (PathExists sourceDir) False, Call (MkdirAll sourceDir 493) None,
                    Log Debug ''Exposing source to container'' [(''target'', FString tgt)]]"
      show ?thesis
      proof (cases "fails env ?h1 (TouchFile tgt)")
        case (Some e1)
        with ex mk Cons.prems show ?thesis
          by (auto simp: Let_def sourceDir_def tgt_def)
      next
        case t: None
        show ?thesis
        proof (cases "fails env (?h1 @ [Call (TouchFile tgt) None]) (BindMount localFile tgt)")
          case (Some e2)
          with ex mk t Cons.prems show ?thesis
            by (auto simp: Let_def sourceDir_def tgt_def localFile_def)
        next
          case None
          with ex mk t show ?thesis
            by (intro rec[of "[Test (PathExists sourceDir) False, Call (MkdirAll sourceDir 493) None,
                    Log Debug ''Exposing source to container'' [(''target'', FString tgt)],
                    Call (TouchFile tgt) None, Call (BindMount localFile tgt) None]"])
               (auto simp: Let_def sourceDir_def tgt_def localFile_def)
        qed
      qed
    qed
  qed
qed

lemma BindSources_loop_mounts:
  "\<exists>k. bind_mounts (snd (BindSources_loop env p ov srcs h)) =
         bind_mounts h @
         take k (map (\<lambda>s. (GetPath env s (digest_for (Type p) s),
                           Join [GetSourceDir env p ov, File s])) srcs)"
proof (induction srcs arbitrary: h)
  case Nil
  then show ?case by simp
next
  case (Cons s srcs)
  let ?m = "\<lambda>s. (GetPath env s (digest_for (Type p) s), Join [GetSourceDir env p ov, File s])"
  have dg: "(if Type p = PackageTypeXML then SHA1Sum s else SHA256Sum s) = digest_for (Type p) s"
    by (cases "Type p") (simp_all add: digest_for_def)
  have stop: ?case
    if "bind_mounts (snd (BindSources_loop env p ov (s # srcs) h)) = bind_mounts h"
    using that by (intro exI[of _ 0]) simp
  have stop1: ?case
    if "bind_mounts (snd (BindSources_loop env p ov (s # srcs) h)) = bind_mounts h @ [?m s]"
    using that by (intro exI[of _ 1]) simp
  have rec: ?case
    if eq: "BindSources_loop env p ov (s # srcs) h = BindSources_loop env p ov srcs (h @ evs)"
      and bm: "bind_mounts evs = [?m s]" for evs
  proof -
    from Cons.IH[of "h @ evs"] obtain k where
      "bind_mounts (snd (BindSources_loop env p ov srcs (h @ evs))) =
         bind_mounts (h @ evs) @ take k (map ?m srcs)" by blast
    then show ?thesis unfolding eq using bm
      by (intro exI[of _ "Suc k"]) simp
  qed
  define sourceDir where "sourceDir = GetSourceDir env p ov"
  define tgt where "tgt = Join [sourceDir, File s]"
  define localFile where "localFile = GetPath env s (digest_for (Type p) s)"
  define h1 where "h1 = h @ [Test (PathExists sourceDir) (holds env h (PathExists sourceDir))]"
  define r0 where "r0 = (if holds env h (PathExists sourceDir) then None
                         else fails env h1 (MkdirAll sourceDir 493))"
  define evs2 where "evs2 = [Test (PathExists sourceDir) (holds env h (PathExists sourceDir))]
        @ (if holds env h (PathExists sourceDir) then [] else [Call (MkdirAll sourceDir 493) None])
        @ [Log Debug ''Exposing source to container'' [(''target'', FString tgt)]]"
  show ?case
  proof (cases r0)
    case (Some e0)
    then show ?thesis
      by (intro stop)
         (auto simp: Let_def r0_def h1_def sourceDir_def bind_mounts_def bind_of_def split: if_splits)
  next
    case mk: None
    show ?thesis
    proof (cases "fails env (h @ evs2) (TouchFile tgt)")
      case (Some e1)
      with mk show ?thesis
        by (intro stop)
           (auto simp: Let_def r0_def h1_def evs2_def sourceDir_def tgt_def bind_mounts_def
                  bind_of_def split: if_splits)
    next
      case t: None
      show ?thesis
      proof (cases "fails env (h @ evs2 @ [Call (TouchFile tgt) None]) (BindMount localFile tgt)")
        case (Some e2)
        with mk t show ?thesis
          by (intro stop1)
             (auto simp: Let_def r0_def h1_def evs2_def sourceDir_def tgt_def localFile_def dg
                    bind_mounts_def bind_of_def split: if_splits)
      next
        case None
        with mk t show ?thesis
          by (intro rec[of "evs2 @ [Call (TouchFile tgt) None, Call (BindMount localFile tgt) None]"])
             (auto simp: Let_def r0_def h1_def evs2_def sourceDir_def tgt_def localFile_def dg
                    bind_mounts_def bind_of_def split: if_splits)
      qed
    qed
  qed
qed

text \<open>
  C10. Whenever creating the bind-mount target of a source fails during
  \<^verbatim>\<open>BindSources\<close>, the failed call and its log entry are the last things the function
  does, and it returns \<^verbatim>\<open>nil\<close>: that source is not bind-mounted and the sources after
  it are not looked at.
\<close>

theorem BindSources_touch_failure:
  "Call (TouchFile t) (Some err) \<in> set (drop (length h0) (snd (BindSources env p ov h0)))
   \<Longrightarrow> fst (BindSources env p ov h0) = None
       \<and> (\<exists>pre. snd (BindSources env p ov h0) =
             pre @ [Call (TouchFile t) (Some err),
                    Log Error ''Failed to create bind mount target''
                      [(''target'', FString t), (''error'', FError err)]])"
  unfolding BindSources_def by (rule BindSources_loop_touch)

theorem BindSources_touch_failure_witness:
  "Call (TouchFile ''/mnt/home/build/YPKG/sources/a.tar'') (Some (ExternalError ''read-only''))
     \<in> set (drop (length ([] :: event list))
          (snd (BindSources
            (env_ok\<lparr>fails := \<lambda>h a. if a = TouchFile ''/mnt/home/build/YPKG/sources/a.tar''
                                     then Some (ExternalError ''read-only'') else None\<rparr>)
            pkg_yml ov_mnt [])))
   \<and> BindSources
        (env_ok\<lparr>fails := \<lambda>h a. if a = TouchFile ''/mnt/home/build/YPKG/sources/a.tar''
                                 then Some (ExternalError ''read-only'') else None\<rparr>)
        pkg_yml ov_mnt [] =
      (None,
       [Test (PathExists ''/mnt/home/build/YPKG/sources'') False,
        Call (MkdirAll ''/mnt/home/build/YPKG/sources'' 493) None,
        Log Debug ''Exposing source to container''
          [(''target'', FString ''/mnt/home/build/YPKG/sources/a.tar'')],
        Call (TouchFile ''/mnt/home/build/YPKG/sources/a.tar'') (Some (ExternalError ''read-only'')),
        Log Error ''Failed to create bind mount target''
          [(''target'', FString ''/mnt/home/build/YPKG/sources/a.tar''),
           (''error'', FError (ExternalError ''read-only''))]])"
  using BindSources_touch_failure
    [of "''/mnt/home/build/YPKG/sources/a.tar''" "ExternalError ''read-only''" "[]"
        "env_ok\<lparr>fails := \<lambda>h a. if a = TouchFile ''/mnt/home/build/YPKG/sources/a.tar''
                                 then Some (ExternalError ''read-only'') else None\<rparr>"
        pkg_yml ov_mnt]
  by (simp add: ex_defs BindSources_def GetSourceDir_def GetSourceDirInternal_def Join_def
        Clean_def Separator_def Let_def)

lemma BindSources_loop_mounts_all:
  "(\<forall>a e. Call a (Some e) \<notin> set (drop (length h) (snd (BindSources_loop env p ov srcs h))))
   \<Longrightarrow> bind_mounts (snd (BindSources_loop env p ov srcs h)) =
         bind_mounts h @
         map (\<lambda>s. (GetPath env s (digest_for (Type p) s),
                    Join [GetSourceDir env p ov, File s])) srcs"
proof (induction srcs arbitrary: h)
  case Nil
  then show ?case by simp
next
  case (Cons s srcs)
  let ?m = "\<lambda>s. (GetPath env s (digest_for (Type p) s), Join [GetSourceDir env p ov, File s])"
  have dg: "(if Type p = PackageTypeXML then SHA1Sum s else SHA256Sum s) = digest_for (Type p) s"
    by (cases "Type p") (simp_all add: digest_for_def)
  define sourceDir where "sourceDir = GetSourceDir env p ov"
  define tgt where "tgt = Join [sourceDir, File s]"
  define localFile where "localFile = GetPath env s (digest_for (Type p) s)"
  define h1 where "h1 = h @ [Test (PathExists sourceDir) (holds env h (PathExists sourceDir))]"
  define r0 where "r0 = (if holds env h (PathExists sourceDir) then None
                         else fails env h1 (MkdirAll sourceDir 493))"
  define evs2 where "evs2 = [Test (PathExists sourceDir) (holds env h (PathExists sourceDir))]
        @ (if holds env h (PathExists sourceDir) then [] else [Call (MkdirAll sourceDir 493) None])
        @ [Log Debug ''Exposing source to container'' [(''target'', FString tgt)]]"
  note prem = Cons.prems
  have rec: ?case
    if eq: "BindSources_loop env p ov (s # srcs) h = BindSources_loop env p ov srcs (h @ evs)"
      and bm: "bind_mounts evs = [?m s]" for evs
  proof -
    have "set (drop (length (h @ evs)) (snd (BindSources_loop env p ov srcs (h @ evs))))
            \<subseteq> set (drop (length h) (snd (BindSources_loop env p ov srcs (h @ evs))))"
      by (rule set_drop_subset_set_drop) simp
    with prem have "\<forall>a e. Call a (Some e)
        \<notin> set (drop (length (h @ evs)) (snd (BindSources_loop env p ov srcs (h @ evs))))"
      unfolding eq by blast
    from Cons.IH[OF this] show ?thesis
      unfolding eq using bm by simp
  qed
  show ?case
  proof (cases r0)
    case (Some e0)
    with prem show ?thesis
      by (auto simp: Let_def r0_def h1_def sourceDir_def split: if_splits)
  next
    case mk: None
    show ?thesis
    proof (cases "fails env (h @ evs2) (TouchFile tgt)")
      case (Some e1)
      with mk prem show ?thesis
        by (auto simp: Let_def r0_def h1_def evs2_def sourceDir_def tgt_def split: if_splits)
    next
      case t: None
      show ?thesis
      proof (cases "fails env (h @ evs2 @ [Call (TouchFile tgt) None]) (BindMount localFile tgt)")
        case (Some e2)
        with mk t prem show ?thesis
          by (auto simp: Let_def r0_def h1_def evs2_def sourceDir_def tgt_def localFile_def dg
                 split: if_splits)
      next
        case None
        with mk t show ?thesis
          by (intro rec[of "evs2 @ [Call (TouchFile tgt) None, Call (BindMount localFile tgt) None]"])
             (auto simp: Let_def r0_def h1_def evs2_def sourceDir_def tgt_def localFile_def dg
                    bind_mounts_def bind_of_def split: if_splits)
      qed
    qed
  qed
qed

text \<open>
  C4. The checksum handed to the cache check in \<^verbatim>\<open>FetchSources\<close> and to the cache
  lookup in \<^verbatim>\<open>BindSources\<close> is the same function of the package format and the source:
  the SHA-1 sum for the legacy format, the SHA-256 sum for the modern one. Every cache
  check of \<^verbatim>\<open>FetchSources\<close> uses it, for the sources of the package in their order.
  The bind mounts of \<^verbatim>\<open>BindSources\<close> take the cached file that this digest locates,
  for the sources in their order up to the one where the function leaves the loop; when
  no call of the run fails, these are all the sources of the package.
\<close>

theorem digest_by_format:
  "queries (snd (FetchSources env p ov h0)) =
     queries h0 @ map (\<lambda>s. IsFetched s (digest_for (Type p) s)) (Sources p)
   \<and> (\<exists>k. bind_mounts (snd (BindSources env p ov h0)) =
           bind_mounts h0 @
           take k (map (\<lambda>s. (GetPath env s (digest_for (Type p) s),
                             Join [GetSourceDir env p ov, File s])) (Sources p)))
   \<and> ((\<forall>a e. Call a (Some e) \<notin> set (drop (length h0) (snd (BindSources env p ov h0)))) \<longrightarrow>
        bind_mounts (snd (BindSources env p ov h0)) =
          bind_mounts h0 @
          map (\<lambda>s. (GetPath env s (digest_for (Type p) s),
                     Join [GetSourceDir env p ov, File s])) (Sources p))
   \<and> digest_for PackageTypeXML s = SHA1Sum s
   \<and> digest_for PackageTypeYpkg s = SHA256Sum s"
proof -
  have "(\<lambda>s. IsFetched s (if Type p = PackageTypeXML then SHA1Sum s else SHA256Sum s))
        = (\<lambda>s. IsFetched s (digest_for (Type p) s))"
    by (cases "Type p") (simp_all add: digest_for_def)
  then show ?thesis
    using BindSources_loop_mounts[of env p ov "Sources p" h0]
      BindSources_loop_mounts_all[of h0 env p ov "Sources p"]
    by (simp add: FetchSources_def FetchSources_loop_queries BindSources_def digest_for_def)
qed

theorem digest_by_format_witness:
  "(\<forall>a e. Call a (Some e) \<notin> set (drop (length ([] :: event list))
                                     (snd (BindSources env_ok pkg_yml ov_mnt []))))
   \<and> bind_mounts (snd (BindSources env_ok pkg_yml ov_mnt [])) =
       [(''/cache/a256'', ''/mnt/home/build/YPKG/sources/a.tar''),
        (''/cache/b256'', ''/mnt/home/build/YPKG/sources/b.tar'')]
   \<and> (\<forall>a e. Call a (Some e) \<notin> set (drop (length ([] :: event list))
                                     (snd (BindSources env_ok (pkg_yml\<lparr>Type := PackageTypeXML\<rparr>) ov_mnt []))))
   \<and> bind_mounts (snd (BindSources env_ok (pkg_yml\<lparr>Type := PackageTypeXML\<rparr>) ov_mnt [])) =
       [(''/cache/a1'', ''/mnt/var/cache/eopkg/archives/a.tar''),
        (''/cache/b1'', ''/mnt/var/cache/eopkg/archives/b.tar'')]
   \<and> queries (snd (FetchSources env_ok (pkg_yml\<lparr>Type := PackageTypeXML\<rparr>) ov_mnt [])) =
       [IsFetched src_a ''a1'', IsFetched src_b ''b1'']"
proof -
  let ?x = "pkg_yml\<lparr>Type := PackageTypeXML\<rparr>"
  let ?m = "\<lambda>q s. (GetPath env_ok s (digest_for (Type q) s), Join [GetSourceDir env_ok q ov_mnt, File s])"
  have ty: "snd (BindSources env_ok pkg_yml ov_mnt []) =
      [Test (PathExists ''/mnt/home/build/YPKG/sources'') False,
       Call (MkdirAll ''/mnt/home/build/YPKG/sources'' 493) None,
       Log Debug ''Exposing source to container''
         [(''target'', FString ''/mnt/home/build/YPKG/sources/a.tar'')],
       Call (TouchFile ''/mnt/home/build/YPKG/sources/a.tar'') None,
       Call (BindMount ''/cache/a256'' ''/mnt/home/build/YPKG/sources/a.tar'') None,
       Test (PathExists ''/mnt/home/build/YPKG/sources'') False,
       Call (MkdirAll ''/mnt/home/build/YPKG/sources'' 493) None,
       Log Debug ''Exposing source to container''
         [(''target'', FString ''/mnt/home/build/YPKG/sources/b.tar'')],
       Call (TouchFile ''/mnt/home/build/YPKG/sources/b.tar'') None,
       Call (BindMount ''/cache/b256'' ''/mnt/home/build/YPKG/sources/b.tar'') None]"
    by (simp add: ex_defs BindSources_def GetSourceDir_def GetSourceDirInternal_def Join_def
          Clean_def Separator_def Let_def)
  have tx: "snd (BindSources env_ok ?x ov_mnt []) =
      [Test (PathExists ''/mnt/var/cache/eopkg/archives'') False,
       Call (MkdirAll ''/mnt/var/cache/eopkg/archives'' 493) None,
       Log Debug ''Exposing source to container''
         [(''target'', FString ''/mnt/var/cache/eopkg/archives/a.tar'')],
       Call (TouchFile ''/mnt/var/cache/eopkg/archives/a.tar'') None,
       Call (BindMount ''/cache/a1'' ''/mnt/var/cache/eopkg/archives/a.tar'') None,
       Test (PathExists ''/mnt/var/cache/eopkg/archives'') False,
       Call (MkdirAll ''/mnt/var/cache/eopkg/archives'' 493) None,
       Log Debug ''Exposing source to container''
         [(''target'', FString ''/mnt/var/cache/eopkg/archives/b.tar'')],
       Call (TouchFile ''/mnt/var/cache/eopkg/archives/b.tar'') None,
       Call (BindMount ''/cache/b1'' ''/mnt/var/cache/eopkg/archives/b.tar'') None]"
    by (simp add: ex_defs BindSources_def GetSourceDir_def GetSourceDirInternal_def Join_def
          Clean_def Separator_def Let_def)
  have hy: "\<forall>a e. Call a (Some e) \<notin> set (drop (length ([] :: event list))
                                     (snd (BindSources env_ok pkg_yml ov_mnt [])))"
    unfolding ty by simp
  have hx: "\<forall>a e. Call a (Some e) \<notin> set (drop (length ([] :: event list))
                                     (snd (BindSources env_ok ?x ov_mnt [])))"
    unfolding tx by simp
  note Y = digest_by_format [of env_ok pkg_yml ov_mnt "[]"]
  note X = digest_by_format [of env_ok ?x ov_mnt "[]"]
  have by': "bind_mounts (snd (BindSources env_ok pkg_yml ov_mnt [])) =
               bind_mounts [] @ map (?m pkg_yml) (Sources pkg_yml)"
    using Y hy by blast
  have bx: "bind_mounts (snd (BindSources env_ok ?x ov_mnt [])) =
               bind_mounts [] @ map (?m ?x) (Sources ?x)"
    using X hx by blast
  have qx: "queries (snd (FetchSources env_ok ?x ov_mnt [])) =
              queries [] @ map (\<lambda>s. IsFetched s (digest_for (Type ?x) s)) (Sources ?x)"
    using X by blast
  have my: "bind_mounts [] @ map (?m pkg_yml) (Sources pkg_yml) =
       [(''/cache/a256'', ''/mnt/home/build/YPKG/sources/a.tar''),
        (''/cache/b256'', ''/mnt/home/build/YPKG/sources/b.tar'')]"
    by (simp add: ex_defs GetSourceDir_def GetSourceDirInternal_def Join_def Clean_def
          Separator_def Let_def digest_for_def bind_mounts_def)
  have mx: "bind_mounts [] @ map (?m ?x) (Sources ?x) =
       [(''/cache/a1'', ''/mnt/var/cache/eopkg/archives/a.tar''),
        (''/cache/b1'', ''/mnt/var/cache/eopkg/archives/b.tar'')]"
    by (simp add: ex_defs GetSourceDir_def GetSourceDirInternal_def Join_def Clean_def
          Separator_def Let_def digest_for_def bind_mounts_def)
  have mq: "queries [] @ map (\<lambda>s. IsFetched s (digest_for (Type ?x) s)) (Sources ?x) =
       [IsFetched src_a ''a1'', IsFetched src_b ''b1'']"
    by (simp add: pkg_yml_def digest_for_def queries_def src_a_def src_b_def)
  show ?thesis
    using hy hx by'[unfolded my] bx[unfolded mx] qx[unfolded mq] by blast
qed

section \<open>Directory conventions\<close>

lemma rooted_path_nonempty: "es \<noteq> [] \<Longrightarrow> rooted_path es \<noteq> []"
  by (cases es) (auto simp: rooted_path_def)

lemma drop1_rooted: "es \<noteq> [] \<Longrightarrow> drop 1 (rooted_path es) = join_sep es"
  using join_sep_rooted[of es] by (metis One_nat_def drop0 drop_Suc_Cons)

lemma under_mount:
  assumes "\<forall>e\<in>set ms. proper_elem e" "ms \<noteq> []" "\<forall>e\<in>set es. proper_elem e" "es \<noteq> []"
  shows "Join [rooted_path ms, drop 1 (rooted_path es)] = rooted_path ms @ rooted_path es"
proof -
  have "drop 1 (rooted_path es) = join_sep es"
    using assms(4) by (rule drop1_rooted)
  then show ?thesis
    unfolding \<open>drop 1 (rooted_path es) = join_sep es\<close>
    using Join_rooted[OF assms] by (simp add: rooted_path_append)
qed

lemma home_work:
  assumes "\<forall>e\<in>set hs. proper_elem e" "hs \<noteq> []"
  shows "Join [rooted_path hs, ''work''] = rooted_path (hs @ [''work''])"
    and "Join [rooted_path hs, ''YPKG'', ''sources''] = rooted_path (hs @ [''YPKG'', ''sources''])"
proof -
  have e1: "\<forall>e\<in>set [''work'']. proper_elem e"
    and e2: "\<forall>e\<in>set [''YPKG'', ''sources'']. proper_elem e"
    by (simp_all add: proper_elem_def Separator_def)
  show "Join [rooted_path hs, ''work''] = rooted_path (hs @ [''work''])"
    using Join_rooted[OF assms e1] by simp
  have "Join [rooted_path hs, ''YPKG'', ''sources'']
          = Join [rooted_path hs, join_sep [''YPKG'', ''sources'']]"
    using rooted_path_nonempty[OF assms(2)] by (simp add: Join_def)
  then show "Join [rooted_path hs, ''YPKG'', ''sources''] = rooted_path (hs @ [''YPKG'', ''sources''])"
    using Join_rooted[OF assms e2] by simp
qed

lemma internal_rooted:
  assumes "Type p = PackageTypeYpkg \<longrightarrow>
             BuildUserHome env = rooted_path hs \<and> hs \<noteq> [] \<and> (\<forall>e\<in>set hs. proper_elem e)"
  shows "\<exists>ws. ws \<noteq> [] \<and> (\<forall>e\<in>set ws. proper_elem e) \<and> GetWorkDirInternal env p = rooted_path ws"
    and "\<exists>ss. ss \<noteq> [] \<and> (\<forall>e\<in>set ss. proper_elem e) \<and> GetSourceDirInternal env p = rooted_path ss"
proof -
  show "\<exists>ws. ws \<noteq> [] \<and> (\<forall>e\<in>set ws. proper_elem e) \<and> GetWorkDirInternal env p = rooted_path ws"
  proof (cases "Type p")
    case PackageTypeXML
    then show ?thesis
      by (intro exI[of _ "[''WORK'']"])
         (simp add: GetWorkDirInternal_def rooted_path_def proper_elem_def Separator_def)
  next
    case PackageTypeYpkg
    with assms have h: "BuildUserHome env = rooted_path hs" "hs \<noteq> []" "\<forall>e\<in>set hs. proper_elem e"
      by auto
    show ?thesis
      using PackageTypeYpkg h home_work(1)[OF h(3,2)]
      by (intro exI[of _ "hs @ [''work'']"])
         (auto simp: GetWorkDirInternal_def proper_elem_def Separator_def)
  qed
  show "\<exists>ss. ss \<noteq> [] \<and> (\<forall>e\<in>set ss. proper_elem e) \<and> GetSourceDirInternal env p = rooted_path ss"
  proof (cases "Type p")
    case PackageTypeXML
    then show ?thesis
      by (intro exI[of _ "[''var'', ''cache'', ''eopkg'', ''archives'']"])
         (simp add: GetSourceDirInternal_def rooted_path_def proper_elem_def Separator_def)
  next
    case PackageTypeYpkg
    with assms have h: "BuildUserHome env = rooted_path hs" "hs \<noteq> []" "\<forall>e\<in>set hs. proper_elem e"
      by auto
    show ?thesis
      using PackageTypeYpkg h home_work(2)[OF h(3,2)]
      by (intro exI[of _ "hs @ [''YPKG'', ''sources'']"])
         (auto simp: GetSourceDirInternal_def proper_elem_def Separator_def)
  qed
qed

lemma Join_nonempty: "e \<noteq> [] \<Longrightarrow> e \<in> set es \<Longrightarrow> Join es \<noteq> []"
proof -
  assume "e \<noteq> []" "e \<in> set es"
  then have "dropWhile (\<lambda>e. e = []) es \<noteq> []"
    by (auto simp: dropWhile_eq_Nil_conv)
  then show ?thesis
    by (auto simp: Join_def Clean_nonempty split: list.splits)
qed

text \<open>
  C6. The internal work and source directories depend on the package format only: for
  the legacy format they are \<^verbatim>\<open>/WORK\<close> and \<^verbatim>\<open>/var/cache/eopkg/archives\<close>; for the
  modern format they are \<^verbatim>\<open>work\<close> and \<^verbatim>\<open>YPKG/sources\<close> joined under the build user's
  home. They are never empty, so dropping their first byte is safe. The externally
  visible directories are the internal ones, without the leading separator, joined
  under the overlay's mount point, and depend on the format and the mount point only;
  when the mount point and the home are absolute paths of proper elements, the external
  directory is the mount point followed by the internal directory.
\<close>

theorem directory_conventions:
  "(Type p = PackageTypeXML \<longrightarrow>
      GetWorkDirInternal env p = ''/WORK''
      \<and> GetSourceDirInternal env p = ''/var/cache/eopkg/archives'')
   \<and> (Type p = PackageTypeYpkg \<longrightarrow>
      GetWorkDirInternal env p = Join [BuildUserHome env, ''work'']
      \<and> GetSourceDirInternal env p = Join [BuildUserHome env, ''YPKG'', ''sources''])
   \<and> (Type p = PackageTypeYpkg \<and> BuildUserHome env = rooted_path hs \<and> hs \<noteq> []
        \<and> (\<forall>e\<in>set hs. proper_elem e) \<longrightarrow>
      GetWorkDirInternal env p = BuildUserHome env @ ''/work''
      \<and> GetSourceDirInternal env p = BuildUserHome env @ ''/YPKG/sources'')
   \<and> GetWorkDirInternal env p \<noteq> [] \<and> GetSourceDirInternal env p \<noteq> []
   \<and> GetWorkDir env p ov = Join [MountPoint ov, drop 1 (GetWorkDirInternal env p)]
   \<and> GetSourceDir env p ov = Join [MountPoint ov, drop 1 (GetSourceDirInternal env p)]
   \<and> (Type p = Type p' \<and> MountPoint ov = MountPoint ov' \<longrightarrow>
      GetWorkDirInternal env p = GetWorkDirInternal env p'
      \<and> GetSourceDirInternal env p = GetSourceDirInternal env p'
      \<and> GetWorkDir env p ov = GetWorkDir env p' ov'
      \<and> GetSourceDir env p ov = GetSourceDir env p' ov')
   \<and> (MountPoint ov = rooted_path ms \<and> ms \<noteq> [] \<and> (\<forall>e\<in>set ms. proper_elem e)
        \<and> (Type p = PackageTypeYpkg \<longrightarrow>
             BuildUserHome env = rooted_path hs \<and> hs \<noteq> [] \<and> (\<forall>e\<in>set hs. proper_elem e)) \<longrightarrow>
      GetWorkDir env p ov = MountPoint ov @ GetWorkDirInternal env p
      \<and> GetSourceDir env p ov = MountPoint ov @ GetSourceDirInternal env p)"
proof (intro conjI impI)
  show "GetWorkDirInternal env p = ''/WORK''" if "Type p = PackageTypeXML"
    using that by (simp add: GetWorkDirInternal_def)
  show "GetSourceDirInternal env p = ''/var/cache/eopkg/archives''" if "Type p = PackageTypeXML"
    using that by (simp add: GetSourceDirInternal_def)
  show "GetWorkDirInternal env p = Join [BuildUserHome env, ''work'']" if "Type p = PackageTypeYpkg"
    using that by (simp add: GetWorkDirInternal_def)
  show "GetSourceDirInternal env p = Join [BuildUserHome env, ''YPKG'', ''sources'']"
    if "Type p = PackageTypeYpkg"
    using that by (simp add: GetSourceDirInternal_def)
  show "GetWorkDirInternal env p = BuildUserHome env @ ''/work''"
    if "Type p = PackageTypeYpkg \<and> BuildUserHome env = rooted_path hs \<and> hs \<noteq> []
        \<and> (\<forall>e\<in>set hs. proper_elem e)"
    using that home_work(1)[of hs]
    by (simp add: GetWorkDirInternal_def rooted_path_def Separator_def)
  show "GetSourceDirInternal env p = BuildUserHome env @ ''/YPKG/sources''"
    if "Type p = PackageTypeYpkg \<and> BuildUserHome env = rooted_path hs \<and> hs \<noteq> []
        \<and> (\<forall>e\<in>set hs. proper_elem e)"
    using that home_work(2)[of hs]
    by (simp add: GetSourceDirInternal_def rooted_path_def Separator_def)
  show "GetWorkDirInternal env p \<noteq> []"
    by (simp add: GetWorkDirInternal_def Join_nonempty[of "''work''"])
  show "GetSourceDirInternal env p \<noteq> []"
    by (simp add: GetSourceDirInternal_def Join_nonempty[of "''YPKG''"])
  show "GetWorkDir env p ov = Join [MountPoint ov, drop 1 (GetWorkDirInternal env p)]"
    by (simp add: GetWorkDir_def)
  show "GetSourceDir env p ov = Join [MountPoint ov, drop 1 (GetSourceDirInternal env p)]"
    by (simp add: GetSourceDir_def)
  show "GetWorkDirInternal env p = GetWorkDirInternal env p'"
    if "Type p = Type p' \<and> MountPoint ov = MountPoint ov'"
    using that by (simp add: GetWorkDirInternal_def)
  show "GetSourceDirInternal env p = GetSourceDirInternal env p'"
    if "Type p = Type p' \<and> MountPoint ov = MountPoint ov'"
    using that by (simp add: GetSourceDirInternal_def)
  show "GetWorkDir env p ov = GetWorkDir env p' ov'"
    if "Type p = Type p' \<and> MountPoint ov = MountPoint ov'"
    using that by (simp add: GetWorkDir_def GetWorkDirInternal_def)
  show "GetSourceDir env p ov = GetSourceDir env p' ov'"
    if "Type p = Type p' \<and> MountPoint ov = MountPoint ov'"
    using that by (simp add: GetSourceDir_def GetSourceDirInternal_def)
next
  assume a: "MountPoint ov = rooted_path ms \<and> ms \<noteq> [] \<and> (\<forall>e\<in>set ms. proper_elem e)
        \<and> (Type p = PackageTypeYpkg \<longrightarrow>
             BuildUserHome env = rooted_path hs \<and> hs \<noteq> [] \<and> (\<forall>e\<in>set hs. proper_elem e))"
  then have m: "\<forall>e\<in>set ms. proper_elem e" "ms \<noteq> []" and mp: "MountPoint ov = rooted_path ms"
    and h: "Type p = PackageTypeYpkg \<longrightarrow>
             BuildUserHome env = rooted_path hs \<and> hs \<noteq> [] \<and> (\<forall>e\<in>set hs. proper_elem e)"
    by auto
  from internal_rooted(1)[OF h] obtain ws where
    ws: "ws \<noteq> []" "\<forall>e\<in>set ws. proper_elem e" "GetWorkDirInternal env p = rooted_path ws"
    by blast
  from internal_rooted(2)[OF h] obtain ss where
    ss: "ss \<noteq> []" "\<forall>e\<in>set ss. proper_elem e" "GetSourceDirInternal env p = rooted_path ss"
    by blast
  show "GetWorkDir env p ov = MountPoint ov @ GetWorkDirInternal env p"
    using under_mount[OF m ws(2,1)] by (simp add: GetWorkDir_def mp ws(3))
  show "GetSourceDir env p ov = MountPoint ov @ GetSourceDirInternal env p"
    using under_mount[OF m ss(2,1)] by (simp add: GetSourceDir_def mp ss(3))
qed

theorem directory_conventions_witness:
  "Type pkg_yml = PackageTypeYpkg
   \<and> BuildUserHome env_ok = rooted_path [''home'', ''build'']
   \<and> proper_elem ''home'' \<and> proper_elem ''build''
   \<and> MountPoint ov_mnt = rooted_path [''mnt''] \<and> proper_elem ''mnt''
   \<and> GetWorkDirInternal env_ok pkg_yml = ''/home/build/work''
   \<and> GetSourceDirInternal env_ok pkg_yml = ''/home/build/YPKG/sources''
   \<and> GetWorkDir env_ok pkg_yml ov_mnt = ''/mnt/home/build/work''
   \<and> GetSourceDir env_ok pkg_yml ov_mnt = ''/mnt/home/build/YPKG/sources''
   \<and> Type (pkg_yml\<lparr>Type := PackageTypeXML\<rparr>) = PackageTypeXML
   \<and> GetWorkDir env_ok (pkg_yml\<lparr>Type := PackageTypeXML\<rparr>) ov_mnt = ''/mnt/WORK''
   \<and> GetSourceDir env_ok (pkg_yml\<lparr>Type := PackageTypeXML\<rparr>) ov_mnt = ''/mnt/var/cache/eopkg/archives''"
proof -
  let ?x = "pkg_yml\<lparr>Type := PackageTypeXML\<rparr>"
  have facts:
    "Type pkg_yml = PackageTypeYpkg"
    "BuildUserHome env_ok = rooted_path [''home'', ''build'']"
    "proper_elem ''home''" "proper_elem ''build''"
    "MountPoint ov_mnt = rooted_path [''mnt'']" "proper_elem ''mnt''"
    "Type ?x = PackageTypeXML"
    by (simp_all add: ex_defs rooted_path_def proper_elem_def Separator_def)
  have home: "Type pkg_yml = PackageTypeYpkg \<and> BuildUserHome env_ok = rooted_path [''home'', ''build'']
      \<and> [''home'', ''build''] \<noteq> [] \<and> (\<forall>e\<in>set [''home'', ''build'']. proper_elem e)"
    using facts by simp
  have mnt: "MountPoint ov_mnt = rooted_path [''mnt''] \<and> [''mnt''] \<noteq> []
      \<and> (\<forall>e\<in>set [''mnt'']. proper_elem e)"
    using facts by simp
  have notyml: "Type ?x \<noteq> PackageTypeYpkg"
    by simp
  note Y = directory_conventions
      [of pkg_yml env_ok "[''home'', ''build'']" ov_mnt pkg_yml ov_mnt "[''mnt'']"]
  note X = directory_conventions [of ?x env_ok "[''home'', ''build'']" ov_mnt ?x ov_mnt "[''mnt'']"]
  have y1: "GetWorkDirInternal env_ok pkg_yml = BuildUserHome env_ok @ ''/work''"
    and y2: "GetSourceDirInternal env_ok pkg_yml = BuildUserHome env_ok @ ''/YPKG/sources''"
    using Y home by blast+
  have y3: "GetWorkDir env_ok pkg_yml ov_mnt = MountPoint ov_mnt @ GetWorkDirInternal env_ok pkg_yml"
    and y4: "GetSourceDir env_ok pkg_yml ov_mnt = MountPoint ov_mnt @ GetSourceDirInternal env_ok pkg_yml"
    using Y home mnt by blast+
  have x1: "GetWorkDirInternal env_ok ?x = ''/WORK''"
    and x2: "GetSourceDirInternal env_ok ?x = ''/var/cache/eopkg/archives''"
    using X facts(7) by blast+
  have x3: "GetWorkDir env_ok ?x ov_mnt = MountPoint ov_mnt @ GetWorkDirInternal env_ok ?x"
    and x4: "GetSourceDir env_ok ?x ov_mnt = MountPoint ov_mnt @ GetSourceDirInternal env_ok ?x"
    using X mnt notyml by blast+
  have strs: "BuildUserHome env_ok = ''/home/build''" "MountPoint ov_mnt = ''/mnt''"
    by (simp_all add: ex_defs)
  have vals:
    "GetWorkDirInternal env_ok pkg_yml = ''/home/build/work''"
    "GetSourceDirInternal env_ok pkg_yml = ''/home/build/YPKG/sources''"
    "GetWorkDir env_ok pkg_yml ov_mnt = ''/mnt/home/build/work''"
    "GetSourceDir env_ok pkg_yml ov_mnt = ''/mnt/home/build/YPKG/sources''"
    "GetWorkDir env_ok ?x ov_mnt = ''/mnt/WORK''"
    "GetSourceDir env_ok ?x ov_mnt = ''/mnt/var/cache/eopkg/archives''"
    unfolding y3 y4 x3 x4 y1 y2 x1 x2 strs by simp_all
  show ?thesis
    using facts vals by blast
qed

section \<open>The build: structure of a run\<close>

lemma prefix_snoc: "prefix (h @ evs) h' \<Longrightarrow> prefix h h'"
  using append_prefixD by blast

lemma call_prefix: "prefix h (snd (call env a h))"
  by (simp add: call_def)

lemma call_prefix_after: "prefix h (snd (call env a (h @ evs)))"
  by (simp add: call_def)

lemma check_prefix:
  "prefix h0 (snd r) \<Longrightarrow> (\<And>h'. prefix h' (snd (k h')))
   \<Longrightarrow> prefix h0 (snd (check r onfail k))"
proof -
  assume r: "prefix h0 (snd r)" and k: "\<And>h'. prefix h' (snd (k h'))"
  obtain e h1 where [simp]: "r = (e, h1)" by (cases r)
  show ?thesis
  proof (cases e)
    case None
    then show ?thesis using r k[of h1] by (auto simp: check_def)
  next
    case (Some err)
    then show ?thesis using r by (auto simp: check_def)
  qed
qed

lemma check_filter:
  "filter P (snd r) = filter P h0 \<Longrightarrow> (\<And>e. filter P (onfail e) = [])
   \<Longrightarrow> (\<And>h'. filter P (snd (k h')) = filter P h')
   \<Longrightarrow> filter P (snd (check r onfail k)) = filter P h0"
  by (cases r; cases "fst r") (auto simp: check_def)

lemma check_fails:
  "(\<And>h'. fst (k h') \<noteq> None) \<Longrightarrow> fst (check r onfail k) \<noteq> None"
  by (cases r; cases "fst r") (auto simp: check_def)

lemma check_ok: "fst r = None \<Longrightarrow> check r onfail k = k (snd r)"
  by (cases r) (auto simp: check_def)

lemma call_ok: "succeeds env \<Longrightarrow> call env a h = (None, h @ [Call a None])"
  by (simp add: call_def succeeds_def)

lemma call_filter: "\<not> P (Call a (fails env h a)) \<Longrightarrow> filter P (snd (call env a h)) = filter P h"
  by (simp add: call_def)

lemma CopyAssets_loop_prefix: "prefix h (snd (CopyAssets_loop env b d ps h))"
proof (induction ps arbitrary: h)
  case Nil
  then show ?case by simp
next
  case (Cons x ps)
  show ?case
    using Cons.IH append_prefixD by (fastforce simp: Let_def split: option.splits)
qed

lemma CopyAssets_prefix: "prefix h (snd (CopyAssets env p ov h))"
  unfolding CopyAssets_def Let_def
  using CopyAssets_loop_prefix append_prefixD
  by (fastforce split: sum.splits simp del: CopyAssets_loop.simps)

lemma CopyAssets_loop_filter:
  "(\<And>x y r. \<not> P (Call (CopyAll x y) r))
   \<Longrightarrow> filter P (snd (CopyAssets_loop env b d ps h)) = filter P h"
  by (induction ps arbitrary: h) (auto simp: Let_def split: option.splits)

lemma CopyAssets_filter:
  "(\<And>x y r. \<not> P (Call (CopyAll x y) r)) \<Longrightarrow> (\<And>x r. \<not> P (Abs x r))
   \<Longrightarrow> filter P (snd (CopyAssets env p ov h)) = filter P h"
  unfolding CopyAssets_def Let_def
  by (simp add: CopyAssets_loop_filter split: sum.splits del: CopyAssets_loop.simps)

lemma CopyAssets_loop_ok:
  "succeeds env \<Longrightarrow> fst (CopyAssets_loop env b d ps h) = None"
  by (induction ps arbitrary: h) (auto simp: Let_def succeeds_def)

lemma CopyAssets_ok: "succeeds env \<Longrightarrow> fst (CopyAssets env p ov h) = None"
proof -
  assume s: "succeeds env"
  then obtain r where "absPath env h (Dir (Path p)) = Inr r"
    unfolding succeeds_def by blast
  then show ?thesis
    unfolding CopyAssets_def Let_def using s
    by (simp add: CopyAssets_loop_ok del: CopyAssets_loop.simps)
qed

lemma FetchSources_loop_prefix: "prefix h (FetchSources_loop env p srcs h)"
proof (induction srcs arbitrary: h)
  case Nil
  then show ?case by simp
next
  case (Cons s srcs)
  show ?case
    using Cons.IH append_prefixD by (fastforce simp: Let_def split: option.splits)
qed

lemma FetchSources_prefix: "prefix h (snd (FetchSources env p ov (h @ evs)))"
  using FetchSources_loop_prefix[of "h @ evs"] by (auto simp: FetchSources_def dest: prefix_snoc)

lemma FetchSources_loop_filter:
  "(\<And>s x b. \<not> P (Test (IsFetched s x) b)) \<Longrightarrow> (\<And>l m f. \<not> P (Log l m f))
   \<Longrightarrow> (\<And>s r. \<not> P (Call (Fetch s) r))
   \<Longrightarrow> filter P (FetchSources_loop env p srcs h) = filter P h"
  by (induction srcs arbitrary: h) (auto simp: Let_def split: option.splits)

lemma BindSources_loop_filter:
  "(\<And>q b. \<not> P (Test q b)) \<Longrightarrow> (\<And>l m f. \<not> P (Log l m f)) \<Longrightarrow> (\<And>a r. \<not> P (Call a r))
   \<Longrightarrow> filter P (snd (BindSources_loop env p ov srcs h)) = filter P h"
  by (induction srcs arbitrary: h) (auto simp: Let_def split: option.splits prod.splits)

lemma BindSources_loop_ok:
  "succeeds env \<Longrightarrow> fst (BindSources_loop env p ov srcs h) = None"
  by (induction srcs arbitrary: h) (auto simp: Let_def succeeds_def)

lemma if_fails:
  "fst x \<noteq> None \<Longrightarrow> fst y \<noteq> None \<Longrightarrow> fst (if c then x else y) \<noteq> (None :: error option)"
  by simp

lemma Build_steps_fails: "fst (Build_steps env p ov pman h) \<noteq> None"
  unfolding Build_steps_def Let_def
  by (intro check_fails if_fails) simp_all

lemma if_prefix:
  "prefix h (snd x) \<Longrightarrow> prefix h (snd y) \<Longrightarrow> prefix h (snd (if c then x else y))"
  by simp

lemma Build_steps_prefix: "prefix h (snd (Build_steps env p ov pman h))"
  unfolding Build_steps_def Let_def BindSources_def
  by (intro check_prefix if_prefix call_prefix call_prefix_after CopyAssets_prefix FetchSources_prefix
        BindSources_loop_prefix) simp_all

lemma if_filter:
  "filter P (snd x) = filter P h \<Longrightarrow> filter P (snd y) = filter P h
   \<Longrightarrow> filter P (snd (if c then x else y)) = filter P h"
  by simp

lemma Build_steps_reaper:
  "filter reaper_event (snd (Build_steps env p ov pman h)) = filter reaper_event h"
  unfolding Build_steps_def Let_def BindSources_def FetchSources_def
  by (intro check_filter if_filter)
     (simp_all add: call_def reaper_event_def CopyAssets_filter FetchSources_loop_filter
        BindSources_loop_filter)

lemma Build_steps_ok:
  assumes "succeeds env"
  shows "fst (Build_steps env p ov pman h) = Some (ErrorsNew ''Not yet implemented'')"
  unfolding Build_steps_def Let_def
  using assms
  by (simp add: check_ok call_ok CopyAssets_ok FetchSources_def BindSources_def BindSources_loop_ok)

lemmas run_defs =
  Build_def Build_steps_def check_def call_def CopyAssets_def FetchSources_def BindSources_def
  GetWorkDir_def GetWorkDirInternal_def GetSourceDir_def GetSourceDirInternal_def
  Join_def Clean_def Dir_def Base_def Separator_def NewBackingImage_def Let_def

lemma succeeds_env_ok: "succeeds env_ok"
  by (simp add: succeeds_def env_ok_def)

text \<open>
  C9. \<^verbatim>\<open>Build\<close> never returns \<^verbatim>\<open>nil\<close>: whatever the system answers, the result is an
  error, and when every step succeeds it is the error \<^verbatim>\<open>Not yet implemented\<close> of the
  final return statement.
\<close>

theorem Build_never_succeeds:
  "fst (Build env p img h) \<noteq> None
   \<and> (succeeds env \<longrightarrow> fst (Build env p img h) = Some (ErrorsNew ''Not yet implemented''))"
proof
  show "fst (Build env p img h) \<noteq> None"
    unfolding Build_def Let_def
    by (intro check_fails) (simp add: case_prod_beta Build_steps_fails)
  show "succeeds env \<longrightarrow> fst (Build env p img h) = Some (ErrorsNew ''Not yet implemented'')"
    unfolding Build_def Let_def
    by (simp add: check_ok call_ok case_prod_beta Build_steps_ok)
qed

theorem Build_never_succeeds_witness:
  "succeeds env_ok
   \<and> fst (Build env_ok pkg_yml (NewBackingImage ''main-x86_64'') []) =
       Some (ErrorsNew ''Not yet implemented'')"
  using Build_never_succeeds [of env_ok pkg_yml "NewBackingImage ''main-x86_64''" "[]"]
    succeeds_env_ok
  by simp

lemma hooks_append [simp]: "hooks (xs @ ys) = hooks xs @ hooks ys"
  by (simp add: hooks_def)

lemma reaper_runs_append [simp]: "reaper_runs (xs @ ys) = reaper_runs xs @ reaper_runs ys"
  by (simp add: reaper_runs_def)

lemma quiet_events:
  assumes "filter reaper_event xs = []"
  shows "hooks (take k xs) = []" and "reaper_runs (take k xs) = []"
proof -
  from assms have "\<forall>x\<in>set xs. \<not> reaper_event x"
    by (simp add: filter_empty_conv)
  then have q: "\<forall>x\<in>set (take k xs). \<not> reaper_event x"
    using set_take_subset[of k xs] by blast
  have "hook_of x = [] \<and> run_of x = []" if "\<not> reaper_event x" for x
    using that by (cases x) (simp_all add: hook_of_def run_of_def reaper_event_def)
  with q show "hooks (take k xs) = []" and "reaper_runs (take k xs) = []"
    by (simp_all add: hooks_def reaper_runs_def)
qed

lemma Build_returns:
  fixes env p img h
  defines "ov \<equiv> NewOverlay env img p"
  defines "reaper \<equiv> GrimReaper ov p (NewEopkgManager (MountPoint ov))"
  defines "h1 \<equiv> h @ [Log Info ''Building package''
                   [(''profile'', FString (BackingImage.Name img)),
                    (''version'', FString (Version p)),
                    (''package'', FString (Package.Name p)),
                    (''type'', FType (Type p)),
                    (''release'', FInt (Release p))]]"
  shows "fails env h1 (CleanExisting ov) = Some err \<Longrightarrow>
           Build env p img h = (Some err, h1 @ [Call (CleanExisting ov) (Some err)])"
    and "fails env h1 (CleanExisting ov) = None \<Longrightarrow>
         \<exists>r mid. Build env p img h =
                    (r, h1 @ [Call (CleanExisting ov) None, Defer reaper, HandleInterrupt reaper]
                          @ mid @ [RunDeferred reaper])
                  \<and> filter reaper_event mid = []"
proof -
  define pman where "pman = NewEopkgManager (MountPoint ov)"
  define h2 where "h2 = h1 @ [Call (CleanExisting ov) None, Defer reaper, HandleInterrupt reaper]"
  show "Build env p img h = (Some err, h1 @ [Call (CleanExisting ov) (Some err)])"
    if "fails env h1 (CleanExisting ov) = Some err"
    using that unfolding Build_def Let_def
    by (simp add: check_def call_def ov_def h1_def)
  show "\<exists>r mid. Build env p img h =
                    (r, h1 @ [Call (CleanExisting ov) None, Defer reaper, HandleInterrupt reaper]
                          @ mid @ [RunDeferred reaper])
                  \<and> filter reaper_event mid = []"
    if ok: "fails env h1 (CleanExisting ov) = None"
  proof -
    from Build_steps_prefix[of h2 env p ov pman] obtain mid where
      mid: "snd (Build_steps env p ov pman h2) = h2 @ mid"
      by (auto elim: prefixE)
    have "filter reaper_event (h2 @ mid) = filter reaper_event h2"
      using Build_steps_reaper[of env p ov pman h2] unfolding mid .
    then have clean: "filter reaper_event mid = []"
      by simp
    have "Build env p img h =
            (fst (Build_steps env p ov pman h2), snd (Build_steps env p ov pman h2) @ [RunDeferred reaper])"
      using ok unfolding Build_def Let_def
      by (simp add: check_def call_def ov_def[symmetric] h1_def[symmetric] pman_def[symmetric]
            reaper_def[symmetric, unfolded pman_def[symmetric]] h2_def case_prod_beta)
    with mid clean show ?thesis by (auto simp: h2_def)
  qed
qed

text \<open>
  C1 (as amended). The reaper bound to the overlay, the package and the package manager
  of the build is made, deferred and handed to the interrupt hook right after
  \<^verbatim>\<open>CleanExisting\<close> has succeeded, before \<^verbatim>\<open>ActivateRoot\<close> and every later step. From
  then on nothing else defers, registers or runs a reaper, and the reaper runs exactly
  once on every way out of \<^verbatim>\<open>Build\<close>: as the deferred call, the last thing \<^verbatim>\<open>Build\<close>
  does, whatever it returns; and, when a signal interrupts the build after the hook has
  been installed, as the call the hook makes with the same reaper before the process
  terminates, in which case the deferred call does not run. When \<^verbatim>\<open>CleanExisting\<close>
  fails, \<^verbatim>\<open>Build\<close> returns that error at once, and when a signal arrives before the hook
  is installed the process terminates: in both cases no reaper is registered and none
  runs.
\<close>

theorem Build_reaper:
  "let ov = NewOverlay env img p;
       reaper = GrimReaper ov p (NewEopkgManager (MountPoint ov));
       h1 = h @ [Log Info ''Building package''
                   [(''profile'', FString (BackingImage.Name img)),
                    (''version'', FString (Version p)),
                    (''package'', FString (Package.Name p)),
                    (''type'', FType (Type p)),
                    (''release'', FInt (Release p))]];
       new = drop (length h) (snd (Build env p img h))
   in (fails env h1 (CleanExisting ov) = Some err \<longrightarrow>
         Build env p img h = (Some err, h1 @ [Call (CleanExisting ov) (Some err)]))
    \<and> (fails env h1 (CleanExisting ov) = None \<longrightarrow>
         (\<exists>r mid. Build env p img h =
                    (r, h1 @ [Call (CleanExisting ov) None, Defer reaper, HandleInterrupt reaper]
                          @ mid @ [RunDeferred reaper])
                  \<and> filter reaper_event mid = []))
    \<and> (fails env h1 (CleanExisting ov) = None \<longrightarrow> reaper_runs new = [reaper])
    \<and> (fails env h1 (CleanExisting ov) = None \<and> 4 \<le> n \<and> n < length new \<longrightarrow>
         Build_interrupted env p img h n =
           h @ take n new @ [Interrupted, RunHook reaper, Terminated]
         \<and> reaper_runs (take n new) = []
         \<and> reaper_runs (drop (length h) (Build_interrupted env p img h n)) = [reaper])
    \<and> (n < 4 \<longrightarrow>
         Build_interrupted env p img h n = h @ take n new @ [Interrupted, Terminated]
         \<and> reaper_runs (drop (length h) (Build_interrupted env p img h n)) = [])"
proof -
  define ov where "ov = NewOverlay env img p"
  define reaper where "reaper = GrimReaper ov p (NewEopkgManager (MountPoint ov))"
  define lg where "lg = Log Info ''Building package''
                   [(''profile'', FString (BackingImage.Name img)),
                    (''version'', FString (Version p)),
                    (''package'', FString (Package.Name p)),
                    (''type'', FType (Type p)),
                    (''release'', FInt (Release p))]"
  define h1 where "h1 = h @ [lg]"
  define new where "new = drop (length h) (snd (Build env p img h))"
  note R = Build_returns[of env h img p, folded ov_def, folded reaper_def lg_def, folded h1_def]
  have early: "Build env p img h = (Some e, h1 @ [Call (CleanExisting ov) (Some e)])"
    if "fails env h1 (CleanExisting ov) = Some e" for e
    using that by (rule R(1))
  have late: "\<exists>r mid. Build env p img h =
                    (r, h1 @ [Call (CleanExisting ov) None, Defer reaper, HandleInterrupt reaper]
                          @ mid @ [RunDeferred reaper])
                  \<and> filter reaper_event mid = []"
    if "fails env h1 (CleanExisting ov) = None"
    using that by (rule R(2))
  have shape: "\<exists>mid. new = [lg, Call (CleanExisting ov) None, Defer reaper, HandleInterrupt reaper]
                          @ mid @ [RunDeferred reaper]
                  \<and> filter reaper_event mid = []"
    if ok: "fails env h1 (CleanExisting ov) = None"
    using late[OF ok] unfolding new_def h1_def by auto
  have quiet4: "hooks [lg, Call (CleanExisting ov) None, Defer reaper, HandleInterrupt reaper] = [reaper]"
    "reaper_runs [lg, Call (CleanExisting ov) None, Defer reaper, HandleInterrupt reaper] = []"
    "reaper_runs [RunDeferred reaper] = [reaper]"
    by (simp_all add: hooks_def hook_of_def reaper_runs_def run_of_def lg_def)
  have once: "reaper_runs new = [reaper]" if ok: "fails env h1 (CleanExisting ov) = None"
  proof -
    from shape[OF ok] obtain mid where
      n: "new = [lg, Call (CleanExisting ov) None, Defer reaper, HandleInterrupt reaper]
                  @ mid @ [RunDeferred reaper]" and q: "filter reaper_event mid = []" by blast
    have "reaper_runs mid = []"
      using quiet_events(2)[OF q, of "length mid"] by simp
    then show ?thesis unfolding n by (simp add: quiet4 del: append_Cons)
  qed
  have cut: "Build_interrupted env p img h n =
           h @ take n new @ [Interrupted, RunHook reaper, Terminated]
         \<and> reaper_runs (take n new) = []
         \<and> reaper_runs (drop (length h) (Build_interrupted env p img h n)) = [reaper]"
    if ok: "fails env h1 (CleanExisting ov) = None" and n4: "4 \<le> n" and nl: "n < length new"
  proof -
    from shape[OF ok] obtain mid where
      n: "new = [lg, Call (CleanExisting ov) None, Defer reaper, HandleInterrupt reaper]
                  @ mid @ [RunDeferred reaper]" and q: "filter reaper_event mid = []" by blast
    let ?pre = "[lg, Call (CleanExisting ov) None, Defer reaper, HandleInterrupt reaper]"
    have lp: "length ?pre = 4" by simp
    from nl have le: "n - 4 \<le> length mid" unfolding n by simp
    have "take n new = take n ?pre @ take (n - length ?pre) (mid @ [RunDeferred reaper])"
      unfolding n by (simp only: take_append)
    also have "take n ?pre = ?pre"
      using n4 lp by (simp only: take_all)
    also have "take (n - length ?pre) (mid @ [RunDeferred reaper]) = take (n - 4) mid"
      unfolding lp using le by (simp only: take_append) simp
    finally have tk: "take n new = ?pre @ take (n - 4) mid" .
    have hk: "hooks (take n new) = [reaper]"
      unfolding tk using quiet_events(1)[OF q] by (simp add: quiet4 del: append_Cons)
    have rr: "reaper_runs (take n new) = []"
      unfolding tk using quiet_events(2)[OF q] by (simp add: quiet4 del: append_Cons)
    have bi: "Build_interrupted env p img h n =
                h @ take n new @ [Interrupted, RunHook reaper, Terminated]"
      unfolding Build_interrupted_def Let_def new_def[symmetric] hk by simp
    have "reaper_runs (drop (length h) (Build_interrupted env p img h n)) = [reaper]"
      unfolding bi using rr by (simp add: reaper_runs_def run_of_def)
    with bi rr show ?thesis by blast
  qed
  have before: "Build_interrupted env p img h n = h @ take n new @ [Interrupted, Terminated]
         \<and> reaper_runs (drop (length h) (Build_interrupted env p img h n)) = []"
    if n4: "n < 4"
  proof -
    have q: "hooks (take n new) = [] \<and> reaper_runs (take n new) = []"
    proof (cases "fails env h1 (CleanExisting ov)")
      case None
      from shape[OF None] obtain mid where
        n: "new = [lg, Call (CleanExisting ov) None, Defer reaper, HandleInterrupt reaper]
                  @ mid @ [RunDeferred reaper]" by blast
      from n4 have "n = 0 \<or> n = 1 \<or> n = 2 \<or> n = 3" by arith
      then show ?thesis
        unfolding n
        by (auto simp: hooks_def hook_of_def reaper_runs_def run_of_def lg_def numeral_3_eq_3
              numeral_2_eq_2)
    next
      case (Some e)
      from early[OF Some] have "new = [lg, Call (CleanExisting ov) (Some e)]"
        unfolding new_def h1_def by simp
      then have "set (take n new) \<subseteq> {lg, Call (CleanExisting ov) (Some e)}"
        using set_take_subset[of n new] by auto
      then have "\<forall>x\<in>set (take n new). hook_of x = [] \<and> run_of x = []"
        by (auto simp: hook_of_def run_of_def lg_def)
      then show ?thesis
        by (simp add: hooks_def reaper_runs_def)
    qed
    then have bi: "Build_interrupted env p img h n = h @ take n new @ [Interrupted, Terminated]"
      unfolding Build_interrupted_def Let_def new_def[symmetric] by simp
    show ?thesis
      unfolding bi using q by (simp add: reaper_runs_def run_of_def)
  qed
  show ?thesis
    unfolding Let_def ov_def[symmetric] reaper_def[symmetric] lg_def[symmetric] h1_def[symmetric]
      new_def[symmetric]
    using early late once cut before by blast
qed

theorem Build_reaper_witness:
  "fails env_ok
     [Log Info ''Building package''
        [(''profile'', FString ''main-x86_64''), (''version'', FString ''1.0''),
         (''package'', FString ''demo''), (''type'', FType PackageTypeYpkg),
         (''release'', FInt 1)]]
     (CleanExisting ov_mnt) = None
   \<and> (\<exists>r mid. Build env_ok pkg_yml (NewBackingImage ''main-x86_64'') [] =
         (r, [Log Info ''Building package''
                [(''profile'', FString ''main-x86_64''), (''version'', FString ''1.0''),
                 (''package'', FString ''demo''), (''type'', FType PackageTypeYpkg),
                 (''release'', FInt 1)],
              Call (CleanExisting ov_mnt) None,
              Defer (GrimReaper ov_mnt pkg_yml (NewEopkgManager ''/mnt'')),
              HandleInterrupt (GrimReaper ov_mnt pkg_yml (NewEopkgManager ''/mnt''))]
             @ mid @ [RunDeferred (GrimReaper ov_mnt pkg_yml (NewEopkgManager ''/mnt''))])
         \<and> filter reaper_event mid = [])
   \<and> reaper_runs (snd (Build env_ok pkg_yml (NewBackingImage ''main-x86_64'') [])) =
       [GrimReaper ov_mnt pkg_yml (NewEopkgManager ''/mnt'')]
   \<and> (4::nat) \<le> 6
   \<and> 6 < length (snd (Build env_ok pkg_yml (NewBackingImage ''main-x86_64'') []))
   \<and> Build_interrupted env_ok pkg_yml (NewBackingImage ''main-x86_64'') [] 6 =
       [Log Info ''Building package''
          [(''profile'', FString ''main-x86_64''), (''version'', FString ''1.0''),
           (''package'', FString ''demo''), (''type'', FType PackageTypeYpkg),
           (''release'', FInt 1)],
        Call (CleanExisting ov_mnt) None,
        Defer (GrimReaper ov_mnt pkg_yml (NewEopkgManager ''/mnt'')),
        HandleInterrupt (GrimReaper ov_mnt pkg_yml (NewEopkgManager ''/mnt'')),
        Call (ActivateRoot pkg_yml ov_mnt) None,
        Abs ''.'' (Inr ''/src/pkg''),
        Interrupted,
        RunHook (GrimReaper ov_mnt pkg_yml (NewEopkgManager ''/mnt'')),
        Terminated]
   \<and> reaper_runs (Build_interrupted env_ok pkg_yml (NewBackingImage ''main-x86_64'') [] 6) =
       [GrimReaper ov_mnt pkg_yml (NewEopkgManager ''/mnt'')]
   \<and> (2::nat) < 4
   \<and> Build_interrupted env_ok pkg_yml (NewBackingImage ''main-x86_64'') [] 2 =
       [Log Info ''Building package''
          [(''profile'', FString ''main-x86_64''), (''version'', FString ''1.0''),
           (''package'', FString ''demo''), (''type'', FType PackageTypeYpkg),
           (''release'', FInt 1)],
        Call (CleanExisting ov_mnt) None,
        Interrupted,
        Terminated]
   \<and> reaper_runs (Build_interrupted env_ok pkg_yml (NewBackingImage ''main-x86_64'') [] 2) = []
   \<and> fails (env_ok\<lparr>fails := \<lambda>h a. if a = CleanExisting ov_mnt
                                    then Some (ExternalError ''device busy'') else None\<rparr>)
       [Log Info ''Building package''
        [(''profile'', FString ''main-x86_64''), (''version'', FString ''1.0''),
         (''package'', FString ''demo''), (''type'', FType PackageTypeYpkg),
         (''release'', FInt 1)]]
       (CleanExisting ov_mnt) = Some (ExternalError ''device busy'')
   \<and> Build (env_ok\<lparr>fails := \<lambda>h a. if a = CleanExisting ov_mnt
                                    then Some (ExternalError ''device busy'') else None\<rparr>)
       pkg_yml (NewBackingImage ''main-x86_64'') [] =
       (Some (ExternalError ''device busy''),
        [Log Info ''Building package''
           [(''profile'', FString ''main-x86_64''), (''version'', FString ''1.0''),
            (''package'', FString ''demo''), (''type'', FType PackageTypeYpkg),
            (''release'', FInt 1)],
         Call (CleanExisting ov_mnt) (Some (ExternalError ''device busy''))])"
proof -
  let ?busy = "env_ok\<lparr>fails := \<lambda>h a. if a = CleanExisting ov_mnt
                                    then Some (ExternalError ''device busy'') else None\<rparr>"
  let ?img = "NewBackingImage ''main-x86_64''"
  let ?lg = "Log Info ''Building package''
        [(''profile'', FString ''main-x86_64''), (''version'', FString ''1.0''),
         (''package'', FString ''demo''), (''type'', FType PackageTypeYpkg),
         (''release'', FInt 1)]"
  let ?R = "GrimReaper ov_mnt pkg_yml (NewEopkgManager ''/mnt'')"
  have vals: "NewOverlay env_ok ?img pkg_yml = ov_mnt"
    "NewOverlay ?busy ?img pkg_yml = ov_mnt"
    "MountPoint ov_mnt = ''/mnt''"
    "BackingImage.Name ?img = ''main-x86_64''"
    "Version pkg_yml = ''1.0''" "Package.Name pkg_yml = ''demo''"
    "Type pkg_yml = PackageTypeYpkg" "Release pkg_yml = 1"
    "drop (length ([] :: event list)) xs = xs" "[] @ ys = ys"
    for xs ys :: "event list"
    by (simp_all add: ex_defs NewBackingImage_def)
  have ok: "fails env_ok [?lg] (CleanExisting ov_mnt) = None"
    and busy: "fails ?busy [?lg] (CleanExisting ov_mnt) = Some (ExternalError ''device busy'')"
    by (simp_all add: env_ok_def)
  note T6 = Build_reaper [where env = env_ok and img = ?img and p = pkg_yml and h = "[]"
                            and n = 6, unfolded Let_def vals]
  note T2 = Build_reaper [where env = env_ok and img = ?img and p = pkg_yml and h = "[]"
                            and n = 2, unfolded Let_def vals]
  note TB = Build_reaper [where env = ?busy and img = ?img and p = pkg_yml and h = "[]"
                            and err = "ExternalError ''device busy''", unfolded Let_def vals]
  have len: "6 < length (snd (Build env_ok pkg_yml ?img []))"
    and tk6: "take 6 (snd (Build env_ok pkg_yml ?img [])) =
               [?lg, Call (CleanExisting ov_mnt) None, Defer ?R, HandleInterrupt ?R,
                Call (ActivateRoot pkg_yml ov_mnt) None, Abs ''.'' (Inr ''/src/pkg'')]"
    and tk2: "take 2 (snd (Build env_ok pkg_yml ?img [])) = [?lg, Call (CleanExisting ov_mnt) None]"
    by (simp_all add: run_defs ex_defs)
  have n6: "(4::nat) \<le> 6" and n2: "(2::nat) < 4"
    by simp_all
  note shape = T6 [THEN conjunct2, THEN conjunct1, rule_format, OF ok,
                    unfolded append_Cons append_Nil]
  note once = T6 [THEN conjunct2, THEN conjunct2, THEN conjunct1, rule_format, OF ok]
  note cut6 = T6 [THEN conjunct2, THEN conjunct2, THEN conjunct2, THEN conjunct1, rule_format,
                   OF conjI [OF ok conjI [OF n6 len]], unfolded tk6 append_Cons append_Nil]
  note cut2 = T2 [THEN conjunct2, THEN conjunct2, THEN conjunct2, THEN conjunct2, rule_format,
                   OF n2, unfolded tk2 append_Cons append_Nil]
  note early = TB [THEN conjunct1, rule_format, OF busy, unfolded append_Cons append_Nil]
  show ?thesis
    unfolding append_Cons append_Nil
    using ok shape once len n6 n2 cut6 cut2 busy early
    by blast
qed

text \<open>
  C1 as stated fails on the first exit path of \<^verbatim>\<open>Build\<close>: when \<^verbatim>\<open>CleanExisting\<close> reports
  an error, \<^verbatim>\<open>Build\<close> returns it and no reaper event occurs at all.
\<close>

theorem Build_reaper_skipped:
  "fst (Build (env_ok\<lparr>fails := \<lambda>h a. if a = CleanExisting ov_mnt
                                        then Some (ExternalError ''device busy'') else None\<rparr>)
          pkg_yml (NewBackingImage ''main-x86_64'') []) = Some (ExternalError ''device busy'')
   \<and> filter reaper_event
        (snd (Build (env_ok\<lparr>fails := \<lambda>h a. if a = CleanExisting ov_mnt
                                              then Some (ExternalError ''device busy'') else None\<rparr>)
                pkg_yml (NewBackingImage ''main-x86_64'') [])) = []"
  by (simp add: run_defs ex_defs reaper_event_def)

text \<open>
  C5. For a legacy-format package no dependency-installation, ownership, networking,
  source-binding or build command is ever run, and when every step succeeds the run ends
  with the warning that full sandboxing is not possible, the stop of D-BUS and the
  reaper. For a modern-format package on which every step succeeds, what follows the
  installation of \<^verbatim>\<open>system.devel\<close> is, in this order: install the build dependencies,
  stop D-BUS, fix the ownership of the home directory, drop networking, configure
  networking, bind the sources, run the build as the build user; none of these steps
  occurs earlier.
\<close>

theorem Build_format_dispatch:
  "let ov = NewOverlay env img p;
       pman = NewEopkgManager (MountPoint ov);
       reaper = GrimReaper ov p pman;
       wdir = GetWorkDirInternal env p;
       ymlFile = Join [wdir, Base (Path p)]
   in (Type p = PackageTypeXML \<longrightarrow>
         filter isolation_step (snd (Build env p img h)) = filter isolation_step h)
    \<and> (Type p = PackageTypeXML \<and> succeeds env \<longrightarrow>
         (\<exists>pre. Build env p img h =
                  (Some (ErrorsNew ''Not yet implemented''),
                   pre @ [Log Warning ''Full sandboxing is not possible with legacy format'' [],
                          Log Debug ''Stopping D-BUS'' [],
                          Call (StopDBUS pman) None,
                          RunDeferred reaper])))
    \<and> (Type p = PackageTypeYpkg \<and> succeeds env \<longrightarrow>
         (\<exists>pre. filter isolation_step pre = filter isolation_step h
                \<and> Build env p img h =
                  (Some (ErrorsNew ''Not yet implemented''),
                   snd (BindSources env p ov
                          (pre @ [Log Info ''Installing build dependencies''
                                    [(''buildFile'', FString ymlFile)],
                                  Call (ChrootExec (MountPoint ov)
                                          (''ypkg-install-deps -f '' @ ymlFile)) None,
                                  Log Debug ''Stopping D-BUS'' [],
                                  Call (StopDBUS pman) None,
                                  Call (ChrootExec (MountPoint ov)
                                          (''chown -R '' @ BuildUser env @ '':'' @ BuildUser env
                                             @ '' '' @ BuildUserHome env)) None,
                                  Call DropNetworking None,
                                  Call (ConfigureNetworking ov) None]))
                   @ [Log Info ''Now starting build of package''
                        [(''package'', FString (Package.Name p))],
                      Call (ChrootExec (MountPoint ov)
                              (''/bin/su - '' @ BuildUser env @ '' -- fakeroot ypkg-build -D ''
                                 @ wdir @ '' '' @ ymlFile)) None,
                      RunDeferred reaper])))"
proof -
  define ov where "ov = NewOverlay env img p"
  define pman where "pman = NewEopkgManager (MountPoint ov)"
  define reaper where "reaper = GrimReaper ov p pman"
  define h1 where "h1 = h @ [Log Info ''Building package''
                   [(''profile'', FString (BackingImage.Name img)),
                    (''version'', FString (Version p)),
                    (''package'', FString (Package.Name p)),
                    (''type'', FType (Type p)),
                    (''release'', FInt (Release p))],
                 Call (CleanExisting ov) None, Defer reaper, HandleInterrupt reaper]"
  define h2 where "h2 = h1 @ [Call (ActivateRoot p ov) None]"
  define h3 where "h3 = snd (CopyAssets env p ov h2)"
  define h4 where "h4 = FetchSources_loop env p (Sources p) (h3 @ [Log Info ''Validating sources'' []])"
  define pre where "pre = h4 @ [Call (PmanInit pman) None,
                 Log Debug ''Starting D-BUS'' [], Call (StartDBUS pman) None,
                 Log Info ''Upgrading system base'' [], Call (Upgrade pman) None,
                 Log Info ''Asserting system.devel component installation'' [],
                 Call (InstallComponent pman ''system.devel'') None]"
  have iso_pre: "filter isolation_step pre = filter isolation_step h"
    unfolding pre_def h4_def h3_def h2_def h1_def
    by (simp add: FetchSources_loop_filter CopyAssets_filter isolation_step_def)
  have legacy_none: "filter isolation_step (snd (Build env p img h)) = filter isolation_step h"
    if x: "Type p = PackageTypeXML"
  proof -
    have steps: "filter isolation_step (snd (Build_steps env p ov' pman' h')) = filter isolation_step h'"
      for ov' pman' h'
      unfolding Build_steps_def Let_def FetchSources_def
      using x
      by (simp, intro check_filter)
         (simp_all add: call_def isolation_step_def CopyAssets_filter FetchSources_loop_filter)
    show ?thesis
      unfolding Build_def Let_def
      by (intro check_filter)
         (simp_all add: call_def isolation_step_def case_prod_beta steps)
  qed
  have run: "Build env p img h =
      (fst (Build_steps env p ov pman h1), snd (Build_steps env p ov pman h1) @ [RunDeferred reaper])"
    if "succeeds env"
    using that unfolding Build_def Let_def
    by (simp add: check_ok call_ok case_prod_beta ov_def[symmetric] pman_def[symmetric]
          reaper_def[symmetric] h1_def)
  have legacy: "Build env p img h =
                  (Some (ErrorsNew ''Not yet implemented''),
                   pre @ [Log Warning ''Full sandboxing is not possible with legacy format'' [],
                          Log Debug ''Stopping D-BUS'' [],
                          Call (StopDBUS pman) None,
                          RunDeferred reaper])"
    if x: "Type p = PackageTypeXML" and s: "succeeds env"
    unfolding run[OF s] Build_steps_def Let_def
    using x s
    by (simp add: check_ok call_ok CopyAssets_ok FetchSources_def pre_def h4_def h3_def h2_def)
  have modern: "Build env p img h =
                  (Some (ErrorsNew ''Not yet implemented''),
                   snd (BindSources env p ov
                          (pre @ [Log Info ''Installing build dependencies''
                                    [(''buildFile'', FString (Join [GetWorkDirInternal env p, Base (Path p)]))],
                                  Call (ChrootExec (MountPoint ov)
                                          (''ypkg-install-deps -f '' @ Join [GetWorkDirInternal env p, Base (Path p)])) None,
                                  Log Debug ''Stopping D-BUS'' [],
                                  Call (StopDBUS pman) None,
                                  Call (ChrootExec (MountPoint ov)
                                          (''chown -R '' @ BuildUser env @ '':'' @ BuildUser env
                                             @ '' '' @ BuildUserHome env)) None,
                                  Call DropNetworking None,
                                  Call (ConfigureNetworking ov) None]))
                   @ [Log Info ''Now starting build of package''
                        [(''package'', FString (Package.Name p))],
                      Call (ChrootExec (MountPoint ov)
                              (''/bin/su - '' @ BuildUser env @ '' -- fakeroot ypkg-build -D ''
                                 @ GetWorkDirInternal env p @ '' '' @ Join [GetWorkDirInternal env p, Base (Path p)])) None,
                      RunDeferred reaper])"
    if y: "Type p = PackageTypeYpkg" and s: "succeeds env"
    unfolding run[OF s] Build_steps_def Let_def
    using y s
    by (simp add: check_ok call_ok CopyAssets_ok FetchSources_def BindSources_def
          BindSources_loop_ok pre_def h4_def h3_def h2_def)
  show ?thesis
    unfolding Let_def ov_def[symmetric] pman_def[symmetric] reaper_def[symmetric]
    using legacy_none legacy modern iso_pre by blast
qed

theorem Build_format_dispatch_witness:
  "Type pkg_yml = PackageTypeYpkg \<and> succeeds env_ok
   \<and> filter isolation_step (snd (Build env_ok pkg_yml (NewBackingImage ''main-x86_64'') [])) =
       [Call (ChrootExec ''/mnt'' ''ypkg-install-deps -f /home/build/work/package.yml'') None,
        Call (ChrootExec ''/mnt'' ''chown -R build:build /home/build'') None,
        Call DropNetworking None,
        Call (ConfigureNetworking ov_mnt) None,
        Test (PathExists ''/mnt/home/build/YPKG/sources'') False,
        Call (MkdirAll ''/mnt/home/build/YPKG/sources'' 493) None,
        Call (TouchFile ''/mnt/home/build/YPKG/sources/a.tar'') None,
        Call (BindMount ''/cache/a256'' ''/mnt/home/build/YPKG/sources/a.tar'') None,
        Test (PathExists ''/mnt/home/build/YPKG/sources'') False,
        Call (MkdirAll ''/mnt/home/build/YPKG/sources'' 493) None,
        Call (TouchFile ''/mnt/home/build/YPKG/sources/b.tar'') None,
        Call (BindMount ''/cache/b256'' ''/mnt/home/build/YPKG/sources/b.tar'') None,
        Call (ChrootExec ''/mnt''
               ''/bin/su - build -- fakeroot ypkg-build -D /home/build/work /home/build/work/package.yml'')
          None]
   \<and> Type (pkg_yml\<lparr>Type := PackageTypeXML\<rparr>) = PackageTypeXML
   \<and> filter isolation_step
        (snd (Build env_ok (pkg_yml\<lparr>Type := PackageTypeXML\<rparr>) (NewBackingImage ''main-x86_64'') [])) = []
   \<and> (\<exists>pre. Build env_ok (pkg_yml\<lparr>Type := PackageTypeXML\<rparr>) (NewBackingImage ''main-x86_64'') [] =
          (Some (ErrorsNew ''Not yet implemented''),
           pre @ [Log Warning ''Full sandboxing is not possible with legacy format'' [],
                  Log Debug ''Stopping D-BUS'' [],
                  Call (StopDBUS (NewEopkgManager ''/mnt'')) None,
                  RunDeferred (GrimReaper ov_mnt (pkg_yml\<lparr>Type := PackageTypeXML\<rparr>)
                                 (NewEopkgManager ''/mnt''))]))"
proof -
  let ?x = "pkg_yml\<lparr>Type := PackageTypeXML\<rparr>"
  let ?img = "NewBackingImage ''main-x86_64''"
  have vals: "NewOverlay env_ok ?img ?x = ov_mnt" "MountPoint ov_mnt = ''/mnt''"
    by (simp_all add: ex_defs)
  have t: "Type pkg_yml = PackageTypeYpkg" "Type ?x = PackageTypeXML"
    by (simp_all add: ex_defs)
  note X = Build_format_dispatch [of env_ok ?img ?x "[]", unfolded Let_def vals]
  have legacy_none: "filter isolation_step (snd (Build env_ok ?x ?img [])) = []"
    using X t(2) by simp
  have legacy_warn: "\<exists>pre. Build env_ok ?x ?img [] =
          (Some (ErrorsNew ''Not yet implemented''),
           pre @ [Log Warning ''Full sandboxing is not possible with legacy format'' [],
                  Log Debug ''Stopping D-BUS'' [],
                  Call (StopDBUS (NewEopkgManager ''/mnt'')) None,
                  RunDeferred (GrimReaper ov_mnt ?x (NewEopkgManager ''/mnt''))])"
    using X t(2) succeeds_env_ok by blast
  have modern: "filter isolation_step (snd (Build env_ok pkg_yml ?img [])) =
       [Call (ChrootExec ''/mnt'' ''ypkg-install-deps -f /home/build/work/package.yml'') None,
        Call (ChrootExec ''/mnt'' ''chown -R build:build /home/build'') None,
        Call DropNetworking None,
        Call (ConfigureNetworking ov_mnt) None,
        Test (PathExists ''/mnt/home/build/YPKG/sources'') False,
        Call (MkdirAll ''/mnt/home/build/YPKG/sources'' 493) None,
        Call (TouchFile ''/mnt/home/build/YPKG/sources/a.tar'') None,
        Call (BindMount ''/cache/a256'' ''/mnt/home/build/YPKG/sources/a.tar'') None,
        Test (PathExists ''/mnt/home/build/YPKG/sources'') False,
        Call (MkdirAll ''/mnt/home/build/YPKG/sources'' 493) None,
        Call (TouchFile ''/mnt/home/build/YPKG/sources/b.tar'') None,
        Call (BindMount ''/cache/b256'' ''/mnt/home/build/YPKG/sources/b.tar'') None,
        Call (ChrootExec ''/mnt''
               ''/bin/su - build -- fakeroot ypkg-build -D /home/build/work /home/build/work/package.yml'')
          None]"
    by (simp add: run_defs ex_defs isolation_step_def)
  show ?thesis
    using t succeeds_env_ok legacy_none legacy_warn modern by blast
qed

section \<open>Unknown profiles\<close>

lemma profile_in_set: "profile_in ps profile = (profile \<in> set ps)"
  by (induction ps) auto

text \<open>
  C2 (as amended). A profile is valid exactly when it is in the known set. The error
  emission writes the line naming the unknown profile, the heading, one line for each
  known profile and the line with the default profile, and nothing else. For an unknown
  profile \<^verbatim>\<open>buildPackage\<close> does nothing but this emission (after looking for a likely
  package file when no argument was given) and returns \<^verbatim>\<open>nil\<close>; \<^verbatim>\<open>updateProfile\<close>, for an
  unknown effective profile, does nothing but this emission: no file-system action is
  attempted by either.
\<close>

theorem unknown_profile:
  "IsValidProfile profile = (profile \<in> set ValidProfiles)
   \<and> EmitProfileError profile h =
       h @ [Stderr (''Error: '' @ [CHR 0x27] @ profile @ [CHR 0x27]
                      @ '' is not a known profile\<newline>''),
            Stderr ''Valid profiles include:\<newline>\<newline>'',
            Stderr '' * main-x86_64\<newline>'',
            Stderr '' * unstable-x86_64\<newline>'',
            Stderr ''\<newline>The default profile is: main-x86_64\<newline>'']
   \<and> (\<not> IsValidProfile profile \<longrightarrow>
        buildPackage env profile args h =
          (None,
           EmitProfileError profile
             (if length args = 1 then h else h @ [FindLikelyArg (findLikelyArg env h)])))
   \<and> (\<not> IsValidProfile (if length args = 1 then TrimSpace env (args ! 0) else profile) \<longrightarrow>
        snd (updateProfile env profile args h) =
          EmitProfileError (if length args = 1 then TrimSpace env (args ! 0) else profile) h)"
proof (intro conjI impI)
  show "IsValidProfile profile = (profile \<in> set ValidProfiles)"
    by (simp add: IsValidProfile_def profile_in_set)
  show "EmitProfileError profile h =
       h @ [Stderr (''Error: '' @ [CHR 0x27] @ profile @ [CHR 0x27]
                      @ '' is not a known profile\<newline>''),
            Stderr ''Valid profiles include:\<newline>\<newline>'',
            Stderr '' * main-x86_64\<newline>'',
            Stderr '' * unstable-x86_64\<newline>'',
            Stderr ''\<newline>The default profile is: main-x86_64\<newline>'']"
    by (simp add: EmitProfileError_def ValidProfiles_def DefaultProfile_def)
  show "buildPackage env profile args h =
          (None,
           EmitProfileError profile
             (if length args = 1 then h else h @ [FindLikelyArg (findLikelyArg env h)]))"
    if "\<not> IsValidProfile profile"
    using that by (simp add: buildPackage_def Let_def)
  show "snd (updateProfile env profile args h) =
          EmitProfileError (if length args = 1 then TrimSpace env (args ! 0) else profile) h"
    if "\<not> IsValidProfile (if length args = 1 then TrimSpace env (args ! 0) else profile)"
    using that by (simp add: updateProfile_def Let_def)
qed

theorem unknown_profile_witness:
  "\<not> IsValidProfile ''bogus''
   \<and> buildPackage env_ok ''bogus'' [] [] =
       (None,
        [FindLikelyArg ''package.yml'',
         Stderr (''Error: '' @ [CHR 0x27] @ ''bogus'' @ [CHR 0x27] @ '' is not a known profile\<newline>''),
         Stderr ''Valid profiles include:\<newline>\<newline>'',
         Stderr '' * main-x86_64\<newline>'',
         Stderr '' * unstable-x86_64\<newline>'',
         Stderr ''\<newline>The default profile is: main-x86_64\<newline>''])
   \<and> \<not> IsValidProfile (TrimSpace env_ok ([''bogus''] ! 0))
   \<and> snd (updateProfile env_ok ''main-x86_64'' [''bogus''] []) =
       [Stderr (''Error: '' @ [CHR 0x27] @ ''bogus'' @ [CHR 0x27] @ '' is not a known profile\<newline>''),
        Stderr ''Valid profiles include:\<newline>\<newline>'',
        Stderr '' * main-x86_64\<newline>'',
        Stderr '' * unstable-x86_64\<newline>'',
        Stderr ''\<newline>The default profile is: main-x86_64\<newline>'']"
proof -
  have inv: "\<not> IsValidProfile ''bogus''"
    by (simp add: IsValidProfile_def ValidProfiles_def)
  have tr: "TrimSpace env_ok ([''bogus''] ! 0) = ''bogus''"
    and tr': "TrimSpace env_ok ''bogus'' = ''bogus''"
    and fl: "findLikelyArg env_ok [] = ''package.yml''"
    by (simp_all add: env_ok_def)
  note B = unknown_profile [where profile = "''bogus''" and h = "[]" and env = env_ok and args = "[]"]
  note U = unknown_profile [where profile = "''main-x86_64''" and h = "[]" and env = env_ok
                              and args = "[''bogus'']"]
  note E = unknown_profile [where profile = "''bogus''" and h = "[FindLikelyArg ''package.yml'']"
                              and env = env_ok and args = "[]"]
  have b: "buildPackage env_ok ''bogus'' [] [] =
             (None, EmitProfileError ''bogus'' [FindLikelyArg ''package.yml''])"
    using B inv by (simp add: fl)
  have u: "snd (updateProfile env_ok ''main-x86_64'' [''bogus''] []) = EmitProfileError ''bogus'' []"
    using U inv by (simp add: tr')
  have e1: "EmitProfileError ''bogus'' [FindLikelyArg ''package.yml''] =
        [FindLikelyArg ''package.yml'',
         Stderr (''Error: '' @ [CHR 0x27] @ ''bogus'' @ [CHR 0x27] @ '' is not a known profile\<newline>''),
         Stderr ''Valid profiles include:\<newline>\<newline>'',
         Stderr '' * main-x86_64\<newline>'',
         Stderr '' * unstable-x86_64\<newline>'',
         Stderr ''\<newline>The default profile is: main-x86_64\<newline>'']"
    using E by simp
  have e2: "EmitProfileError ''bogus'' [] =
        [Stderr (''Error: '' @ [CHR 0x27] @ ''bogus'' @ [CHR 0x27] @ '' is not a known profile\<newline>''),
         Stderr ''Valid profiles include:\<newline>\<newline>'',
         Stderr '' * main-x86_64\<newline>'',
         Stderr '' * unstable-x86_64\<newline>'',
         Stderr ''\<newline>The default profile is: main-x86_64\<newline>'']"
    using B by simp
  show ?thesis
    unfolding b u e1 e2 tr using inv by simp
qed

text \<open>
  C2 as stated fails on the exit status: for the unknown profile \<^verbatim>\<open>bogus\<close>,
  \<^verbatim>\<open>buildPackage\<close> returns \<^verbatim>\<open>nil\<close> to the dispatcher and \<^verbatim>\<open>updateProfile\<close> returns without
  calling \<^verbatim>\<open>os.Exit\<close>, so neither reports a failure.
\<close>

theorem unknown_profile_returns_nil:
  "\<not> IsValidProfile ''bogus''
   \<and> fst (buildPackage env_ok ''bogus'' [''package.yml''] []) = None
   \<and> fst (updateProfile env_ok ''bogus'' [] []) = Returned"
  by (simp add: IsValidProfile_def ValidProfiles_def buildPackage_def updateProfile_def Let_def)

end
